theory Spec2Isabelle
  imports Main "HOL-Library.Signed_Division"
begin

section \<open>Script values and results of an operation\<close>

text \<open>
  A script value (\<open>Value\<close> of edify/expr.h) is a type tag and a byte string.
  \<open>install.cpp\<close> builds values with \<open>StringValue(s)\<close> and \<open>new Value(VAL_BLOB, buffer)\<close>.
\<close>

datatype ValueType = VAL_INVALID | VAL_STRING | VAL_BLOB

datatype Value = Value (type: ValueType) (data: string)

definition StringValue :: "string \<Rightarrow> Value" where
  "StringValue s = Value VAL_STRING s"

text \<open>
  The named error kinds passed to \<open>ErrorAbort\<close> (otautil/error_code.h), those that
  \<open>install.cpp\<close> uses.
\<close>

datatype CauseCode =
    kArgsParsingFailure
  | kPackageExtractFileFailure
  | kFileRenameFailure
  | kSymlinkFailure
  | kSetMetadataFailure
  | kFileGetPropFailure
  | kFileOpenFailure
  | kFreadFailure
  | kRebootFailure
  | kTune2FsFailure

text \<open>
  What a handler hands back to the evaluator. \<open>ErrorAbort(state, kind, fmt, ...)\<close> records the
  kind and the message in the state and yields a null pointer: \<open>ErrorAbort kind\<close> (the text of
  the message is not modelled). A plain \<open>return nullptr\<close> records nothing: \<open>Nullptr\<close>.
\<close>

datatype Result = ErrorAbort CauseCode | Nullptr | Return Value

text \<open>
  An argument expression is represented by what the evaluator makes of it: \<open>None\<close> when its
  evaluation fails, \<open>Some v\<close> when it yields the value \<open>v\<close>.
\<close>

type_synonym Expr = "Value option"

text \<open>
  Modelled from the spec: \<open>Evaluate\<close>, \<open>ReadArgs\<close> and \<open>ReadValueArgs\<close> live in edify/expr.cpp,
  which is not among the sources. \<open>Evaluate\<close> resolves one argument to a string and fails
  when the evaluation fails or the value is not a string; \<open>ReadArgs\<close> resolves the sub-range
  of \<open>len\<close> arguments from \<open>start\<close> to strings and \<open>ReadValueArgs\<close> to values of any type;
  a failure on one argument fails the batch.
\<close>

definition Evaluate :: "Expr \<Rightarrow> string option" where
  "Evaluate e =
     (case e of
        None \<Rightarrow> None
      | Some v \<Rightarrow> (if type v = VAL_STRING then Some (data v) else None))"

definition ReadArgs :: "Expr list \<Rightarrow> nat \<Rightarrow> nat \<Rightarrow> string list option" where
  "ReadArgs argv start len = those (map Evaluate (take len (drop start argv)))"


section \<open>C strings\<close>

text \<open>
  \<open>c_str s\<close> is what a C function reading the pointer \<open>s.c_str()\<close>, or a character array,
  sees: the bytes before the first NUL.
\<close>

definition c_str :: "string \<Rightarrow> string" where
  "c_str s = takeWhile (\<lambda>c. c \<noteq> CHR 0x00) s"

text \<open>
  \<open>strlcpy(dst, src, dsize)\<close> copies at most \<open>dsize - 1\<close> bytes of the C string \<open>src\<close> and
  terminates them with a NUL; the bytes of \<open>dst\<close> behind the terminator stay as they were.
\<close>

definition strlcpy :: "string \<Rightarrow> string \<Rightarrow> nat \<Rightarrow> string" where
  "strlcpy dst src dsize =
     (if dsize = 0 then dst
      else (let n = min (length (c_str src)) (dsize - 1)
            in take n (c_str src) @ [CHR 0x00] @ drop (Suc n) dst))"

section \<open>The boot-control record\<close>

text \<open>
  Modelled from the spec: \<open>struct bootloader_message\<close> is declared in
  bootloader_message/bootloader_message.h, which is not among the sources. The record holds
  the pending command, the stage and other contents; each field is a character array of a
  fixed size (the length of the list). \<open>SetStageFn\<close>'s comment bounds the stage string by 31
  bytes, so the stage array has 32.
\<close>

record bootloader_message =
  command :: string
  stage :: string
  other :: string

text \<open>
  Modelled from the spec: the boot-control I/O contract, \<open>read(path) -> record | error\<close> and
  \<open>write(record, path) -> ok | error\<close>. The storage maps a path to the record stored there;
  a path without a record cannot be read. A write that fails leaves the storage as it was.
\<close>

type_synonym misc_storage = "string \<Rightarrow> bootloader_message option"

record boot_env =
  write_ok :: "string \<Rightarrow> bool"
  quiescent :: bool
  reboot_returns :: "string \<Rightarrow> bool"

definition read_bootloader_message_from ::
  "misc_storage \<Rightarrow> string \<Rightarrow> bootloader_message option" where
  "read_bootloader_message_from m filename = m filename"

definition write_bootloader_message_to ::
  "boot_env \<Rightarrow> bootloader_message \<Rightarrow> string \<Rightarrow> misc_storage \<Rightarrow> misc_storage option" where
  "write_bootloader_message_to env boot filename m =
     (if write_ok env filename then Some (m(filename \<mapsto> boot)) else None)"

section \<open>Staged reboot: set_stage, get_stage, reboot_now\<close>

definition SetStageFn ::
  "boot_env \<Rightarrow> string \<Rightarrow> Expr list \<Rightarrow> misc_storage \<Rightarrow> Result \<times> misc_storage" where
  "SetStageFn env name argv m =
     (if length argv \<noteq> 2 then (ErrorAbort kArgsParsingFailure, m)
      else
        (case ReadArgs argv 0 (length argv) of
           None \<Rightarrow> (ErrorAbort kArgsParsingFailure, m)
         | Some args \<Rightarrow>
             (let filename = args ! 0; stagestr = args ! 1
              in (case read_bootloader_message_from m filename of
                    None \<Rightarrow> (Return (StringValue ''''), m)
                  | Some boot \<Rightarrow>
                      (let boot' = boot\<lparr>stage :=
                             strlcpy (stage boot) stagestr (length (stage boot))\<rparr>
                       in (case write_bootloader_message_to env boot' filename m of
                             None \<Rightarrow> (Return (StringValue ''''), m)
                           | Some m' \<Rightarrow> (Return (StringValue filename), m')))))))"

text \<open>
  \<open>StringValue(boot.stage)\<close> reads the stage array as a C string. An array without a NUL
  would be read past its end, which the model does not follow: it stops at the array's end.
\<close>

definition GetStageFn :: "string \<Rightarrow> Expr list \<Rightarrow> misc_storage \<Rightarrow> Result" where
  "GetStageFn name argv m =
     (if length argv \<noteq> 1 then ErrorAbort kArgsParsingFailure
      else
        (case ReadArgs argv 0 (length argv) of
           None \<Rightarrow> ErrorAbort kArgsParsingFailure
         | Some args \<Rightarrow>
             (let filename = args ! 0
              in (case read_bootloader_message_from m filename of
                    None \<Rightarrow> Return (StringValue '''')
                  | Some boot \<Rightarrow> Return (StringValue (c_str (stage boot)))))))"

text \<open>
  \<open>reboot_now\<close> asks for the reboot by setting the property \<open>ANDROID_RB_PROPERTY\<close> and
  sleeps five seconds. Whether the process lives to see the end of the sleep is the
  environment's \<open>reboot_returns\<close>; when it does not, the call has no result (\<open>None\<close>).
  The request is recorded as the third component.
\<close>

datatype reboot_event = SetProperty_ANDROID_RB string | Sleep nat

definition RebootNowFn ::
  "boot_env \<Rightarrow> string \<Rightarrow> Expr list \<Rightarrow> misc_storage
     \<Rightarrow> Result option \<times> misc_storage \<times> reboot_event list" where
  "RebootNowFn env name argv m =
     (if length argv \<noteq> 2 then (Some (ErrorAbort kArgsParsingFailure), m, [])
      else
        (case ReadArgs argv 0 (length argv) of
           None \<Rightarrow> (Some (ErrorAbort kArgsParsingFailure), m, [])
         | Some args \<Rightarrow>
             (let filename = args ! 0; property = args ! 1
              in (case read_bootloader_message_from m filename of
                    None \<Rightarrow> (Some (Return (StringValue '''')), m, [])
                  | Some boot \<Rightarrow>
                      (let boot' = boot\<lparr>command :=
                             replicate (length (command boot)) (CHR 0x00)\<rparr>
                       in (case write_bootloader_message_to env boot' filename m of
                             None \<Rightarrow> (Some (Return (StringValue '''')), m, [])
                           | Some m' \<Rightarrow>
                               (let reboot_cmd = ''reboot,'' @ property @
                                      (if quiescent env then '',quiescent'' else '''')
                                in (if reboot_returns env reboot_cmd
                                    then Some (ErrorAbort kRebootFailure)
                                    else None,
                                    m',
                                    [SetProperty_ANDROID_RB reboot_cmd, Sleep 5]))))))))"

section \<open>Metadata: set_metadata and set_metadata_recursive\<close>

text \<open>
  \<open>uid_t\<close>, \<open>gid_t\<close> and \<open>mode_t\<close> are unsigned integers of 32 bits (on the 64-bit targets
  of the updater). The conversion of an integer to one of them keeps its low 32 bits, so
  \<open>-1\<close> becomes \<open>4294967295\<close>, the value that tells \<open>chown\<close> to leave an id as it is.
\<close>

definition uid_t :: "int \<Rightarrow> int" where
  "uid_t v = v mod 2 ^ 32"

definition gid_t :: "int \<Rightarrow> int" where
  "gid_t v = v mod 2 ^ 32"

definition mode_t :: "int \<Rightarrow> int" where
  "mode_t v = v mod 2 ^ 32"

text \<open>
  The parsed permission arguments (\<open>struct perm_parsed_args\<close>). \<open>capabilities\<close> is a
  \<open>uint64_t\<close>, \<open>selabel\<close> is a pointer to a C string.
\<close>

record perm_parsed_args =
  has_uid :: bool
  uid :: int
  has_gid :: bool
  gid :: int
  has_mode :: bool
  mode :: int
  has_fmode :: bool
  fmode :: int
  has_dmode :: bool
  dmode :: int
  has_selabel :: bool
  selabel :: string
  has_capabilities :: bool
  capabilities :: int

text \<open>The file type bits of \<open>st_mode\<close>, as far as \<open>S_ISLNK\<close>, \<open>S_ISDIR\<close> and \<open>S_ISREG\<close> tell them apart.\<close>

datatype file_type = S_IFREG | S_IFDIR | S_IFLNK | S_IFOTHER

definition S_ISLNK :: "file_type \<Rightarrow> bool" where
  "S_ISLNK m = (m = S_IFLNK)"

definition S_ISDIR :: "file_type \<Rightarrow> bool" where
  "S_ISDIR m = (m = S_IFDIR)"

definition S_ISREG :: "file_type \<Rightarrow> bool" where
  "S_ISREG m = (m = S_IFREG)"

text \<open>
  The system calls that apply one attribute, with their arguments. \<open>Setxattr_caps\<close> stands
  for \<open>setxattr(filename, XATTR_NAME_CAPS, &cap_data, ...)\<close> and carries the two permitted
  words of \<open>cap_data\<close> (the inheritable words are zero); \<open>Removexattr_caps\<close> stands for
  \<open>removexattr(filename, XATTR_NAME_CAPS)\<close>.
\<close>

datatype syscall =
    Lsetfilecon string string
  | Chown string int int
  | Chmod string int
  | Removexattr_caps string
  | Setxattr_caps string int int

datatype errno = ENODATA | ENOENT | EACCES | EPERM | EIO

text \<open>
  The kernel decides each call: \<open>None\<close> is success, \<open>Some e\<close> is the failure with
  \<open>errno = e\<close>.
\<close>

type_synonym kernel = "syscall \<Rightarrow> errno option"

text \<open>
  One attribute application: the call is made and recorded, and \<open>bad\<close> goes up by one when
  it fails with an error that is not tolerated. The messages that \<open>uiPrintf\<close> sends on a
  failure are not modelled.
\<close>

definition apply_attr ::
  "kernel \<Rightarrow> (errno \<Rightarrow> bool) \<Rightarrow> syscall \<Rightarrow> int \<times> syscall list \<Rightarrow> int \<times> syscall list" where
  "apply_attr k tolerated c s =
     (case k c of
        None \<Rightarrow> (fst s, snd s @ [c])
      | Some e \<Rightarrow> (if tolerated e then (fst s, snd s @ [c]) else (fst s + 1, snd s @ [c])))"

definition ApplyParsedPerms ::
  "kernel \<Rightarrow> string \<Rightarrow> file_type \<Rightarrow> perm_parsed_args \<Rightarrow> int \<times> syscall list" where
  "ApplyParsedPerms k filename st_mode parsed =
     (let s0 = (0, []);
          s1 = (if has_selabel parsed
                then apply_attr k (\<lambda>e. False) (Lsetfilecon filename (selabel parsed)) s0
                else s0)
      in if S_ISLNK st_mode then s1
         else
           (let s2 = (if has_uid parsed
                      then apply_attr k (\<lambda>e. False)
                             (Chown filename (uid parsed) (gid_t (- 1))) s1
                      else s1);
                s3 = (if has_gid parsed
                      then apply_attr k (\<lambda>e. False)
                             (Chown filename (uid_t (- 1)) (gid parsed)) s2
                      else s2);
                s4 = (if has_mode parsed
                      then apply_attr k (\<lambda>e. False) (Chmod filename (mode parsed)) s3
                      else s3);
                s5 = (if has_dmode parsed \<and> S_ISDIR st_mode
                      then apply_attr k (\<lambda>e. False) (Chmod filename (dmode parsed)) s4
                      else s4);
                s6 = (if has_fmode parsed \<and> S_ISREG st_mode
                      then apply_attr k (\<lambda>e. False) (Chmod filename (fmode parsed)) s5
                      else s5);
                s7 = (if has_capabilities parsed \<and> S_ISREG st_mode
                      then (if capabilities parsed = 0
                            then apply_attr k (\<lambda>e. e = ENODATA) (Removexattr_caps filename) s6
                            else apply_attr k (\<lambda>e. False)
                                   (Setxattr_caps filename
                                      (capabilities parsed mod 2 ^ 32)
                                      (capabilities parsed div 2 ^ 32)) s6)
                      else s6)
            in s7))"

text \<open>
  A directory tree as the tree walk finds it: every entry has its path, its file type and,
  when it is a directory, its entries.
\<close>

datatype fsnode = Entry (fpath: string) (st_mode: file_type) (children: "fsnode list")

text \<open>
  \<open>nftw(path, fn, 30, FTW_CHDIR | FTW_DEPTH | FTW_PHYS)\<close> of the C library. With
  \<open>FTW_DEPTH\<close> the entries of a directory are reported before the directory, with
  \<open>FTW_PHYS\<close> symbolic links are not followed. As soon as \<open>fn\<close> returns a value other than
  0 the walk stops and \<open>nftw\<close> returns that value; when the walk itself fails at an entry
  (\<open>walk_err\<close>) it stops and returns -1; otherwise it returns 0. The second component
  collects what the calls of \<open>fn\<close> did.
\<close>

fun nftw :: "(string \<Rightarrow> bool) \<Rightarrow> (string \<Rightarrow> file_type \<Rightarrow> int \<times> 'e list) \<Rightarrow> fsnode
               \<Rightarrow> int \<times> 'e list"
  and nftw_entries :: "(string \<Rightarrow> bool) \<Rightarrow> (string \<Rightarrow> file_type \<Rightarrow> int \<times> 'e list)
               \<Rightarrow> fsnode list \<Rightarrow> int \<times> 'e list" where
  "nftw walk_err fn (Entry p t cs) =
     (let below = (if t = S_IFDIR then nftw_entries walk_err fn cs else (0, []))
      in if fst below \<noteq> 0 then below
         else if walk_err p then (- 1, snd below)
         else (fst (fn p t), snd below @ snd (fn p t)))"
| "nftw_entries walk_err fn [] = (0, [])"
| "nftw_entries walk_err fn (c # cs) =
     (let first = nftw walk_err fn c
      in if fst first \<noteq> 0 then first
         else (fst (nftw_entries walk_err fn cs),
               snd first @ snd (nftw_entries walk_err fn cs)))"

text \<open>
  The environment of \<open>set_metadata\<close>: the three conversions of \<open>sscanf\<close> that
  \<open>ParsePermArgs\<close> uses (\<open>None\<close> when nothing is converted), what \<open>lstat\<close> and the tree
  walk find at a path (\<open>None\<close> when \<open>lstat\<close> fails), the entries at which the walk itself
  fails, and the kernel.
\<close>

record meta_env =
  sscanf_SCNd64 :: "string \<Rightarrow> int option"
  sscanf_SCNi32 :: "string \<Rightarrow> int option"
  sscanf_SCNi64 :: "string \<Rightarrow> int option"
  fs_tree :: "string \<Rightarrow> fsnode option"
  walk_fails :: "string \<Rightarrow> bool"
  sys :: kernel

text \<open>
  \<open>ParsePermArgs\<close> reads the key/value pairs behind the path. \<open>sscanf\<close> delivers an
  \<open>int64_t\<close> or an \<open>int32_t\<close>, which the assignment converts to the type of the field. A
  value that does not convert leaves the attribute as it is. An unknown key is skipped; the
  warnings (and their bound \<open>max_warnings\<close>) are output only and are not modelled.
\<close>

definition no_perms :: perm_parsed_args where
  "no_perms =
     \<lparr>has_uid = False, uid = 0, has_gid = False, gid = 0, has_mode = False, mode = 0,
      has_fmode = False, fmode = 0, has_dmode = False, dmode = 0,
      has_selabel = False, selabel = '''', has_capabilities = False, capabilities = 0\<rparr>"

definition parse_pair :: "meta_env \<Rightarrow> string \<Rightarrow> string \<Rightarrow> perm_parsed_args \<Rightarrow> perm_parsed_args" where
  "parse_pair env key val parsed =
     (if key = ''uid'' then
        (case sscanf_SCNd64 env val of
           Some v \<Rightarrow> parsed\<lparr>uid := uid_t v, has_uid := True\<rparr> | None \<Rightarrow> parsed)
      else if key = ''gid'' then
        (case sscanf_SCNd64 env val of
           Some v \<Rightarrow> parsed\<lparr>gid := gid_t v, has_gid := True\<rparr> | None \<Rightarrow> parsed)
      else if key = ''mode'' then
        (case sscanf_SCNi32 env val of
           Some v \<Rightarrow> parsed\<lparr>mode := mode_t v, has_mode := True\<rparr> | None \<Rightarrow> parsed)
      else if key = ''dmode'' then
        (case sscanf_SCNi32 env val of
           Some v \<Rightarrow> parsed\<lparr>dmode := mode_t v, has_dmode := True\<rparr> | None \<Rightarrow> parsed)
      else if key = ''fmode'' then
        (case sscanf_SCNi32 env val of
           Some v \<Rightarrow> parsed\<lparr>fmode := mode_t v, has_fmode := True\<rparr> | None \<Rightarrow> parsed)
      else if key = ''capabilities'' then
        (case sscanf_SCNi64 env val of
           Some v \<Rightarrow> parsed\<lparr>capabilities := v mod 2 ^ 64, has_capabilities := True\<rparr>
         | None \<Rightarrow> parsed)
      else if key = ''selabel'' then
        (if val \<noteq> '''' then parsed\<lparr>selabel := c_str val, has_selabel := True\<rparr> else parsed)
      else parsed)"

fun parse_pairs :: "meta_env \<Rightarrow> string list \<Rightarrow> perm_parsed_args \<Rightarrow> perm_parsed_args" where
  "parse_pairs env (key # val # rest) parsed = parse_pairs env rest (parse_pair env key val parsed)"
| "parse_pairs env rest parsed = parsed"

definition ParsePermArgs :: "meta_env \<Rightarrow> string list \<Rightarrow> perm_parsed_args" where
  "ParsePermArgs env args = parse_pairs env (drop 1 args) no_perms"

text \<open>
  \<open>SetMetadataFn\<close> is registered as \<open>set_metadata\<close> and as \<open>set_metadata_recursive\<close> and
  tells the two apart by the name it is called with. The second component is the list of
  the system calls made.
\<close>

definition SetMetadataFn :: "meta_env \<Rightarrow> string \<Rightarrow> Expr list \<Rightarrow> Result \<times> syscall list" where
  "SetMetadataFn env name argv =
     (if length argv mod 2 \<noteq> 1 then (ErrorAbort kArgsParsingFailure, [])
      else
        (case ReadArgs argv 0 (length argv) of
           None \<Rightarrow> (ErrorAbort kArgsParsingFailure, [])
         | Some args \<Rightarrow>
             (case fs_tree env (c_str (args ! 0)) of
                None \<Rightarrow> (ErrorAbort kSetMetadataFailure, [])
              | Some found \<Rightarrow>
                  (let parsed = ParsePermArgs env args;
                       recursive = (name = ''set_metadata_recursive'');
                       walked =
                         (if recursive
                          then nftw (walk_fails env)
                                 (\<lambda>filename statptr.
                                    ApplyParsedPerms (sys env) filename statptr parsed)
                                 found
                          else ApplyParsedPerms (sys env) (c_str (args ! 0)) (st_mode found)
                                 parsed);
                       bad = 0 + fst walked
                   in (if bad > 0 then ErrorAbort kSetMetadataFailure
                       else Return (StringValue ''''),
                       snd walked)))))"

section \<open>The specification of the metadata walk\<close>

text \<open>
  Following the specification's words (section 4.5, application order per target): the
  attribute applications that one entry, given by its path and its file type, is due, in
  their order. (1) The security label, also on a symbolic link; (2) nothing more on a
  symbolic link; (3) uid; (4) gid; (5) mode; (6) the directory-only mode, on a directory;
  (7) the file-only mode, on a regular file; (8) the capabilities, on a regular file: the
  value zero removes the attribute, another value sets the two permitted words. An id of
  \<open>4294967295\<close> is left as it is.
\<close>

definition attribute_applications ::
  "perm_parsed_args \<Rightarrow> string \<times> file_type \<Rightarrow> syscall list" where
  "attribute_applications parsed e =
     (if has_selabel parsed then [Lsetfilecon (fst e) (selabel parsed)] else [])
     @ (if snd e = S_IFLNK then []
        else
          (if has_uid parsed then [Chown (fst e) (uid parsed) 4294967295] else [])
          @ (if has_gid parsed then [Chown (fst e) 4294967295 (gid parsed)] else [])
          @ (if has_mode parsed then [Chmod (fst e) (mode parsed)] else [])
          @ (if has_dmode parsed \<and> snd e = S_IFDIR then [Chmod (fst e) (dmode parsed)] else [])
          @ (if has_fmode parsed \<and> snd e = S_IFREG then [Chmod (fst e) (fmode parsed)] else [])
          @ (if has_capabilities parsed \<and> snd e = S_IFREG
             then (if capabilities parsed = 0 then [Removexattr_caps (fst e)]
                   else [Setxattr_caps (fst e) (capabilities parsed mod 2 ^ 32)
                           (capabilities parsed div 2 ^ 32)])
             else []))"

text \<open>
  An attribute application counts as failed when the kernel refuses it, except that the
  removal of a capability attribute that is already absent (\<open>ENODATA\<close>) is a success.
\<close>

definition counted :: "kernel \<Rightarrow> syscall \<Rightarrow> bool" where
  "counted k c =
     (case k c of
        None \<Rightarrow> False
      | Some e \<Rightarrow> \<not> ((case c of Removexattr_caps f \<Rightarrow> True | _ \<Rightarrow> False) \<and> e = ENODATA))"

definition failed_applications ::
  "kernel \<Rightarrow> perm_parsed_args \<Rightarrow> string \<times> file_type \<Rightarrow> syscall list" where
  "failed_applications k parsed e = filter (counted k) (attribute_applications parsed e)"

text \<open>
  The entries of a tree in the order in which a depth-first walk reports them, the entries
  of a directory before the directory. The entries behind a symbolic link are not visited.
\<close>

fun postorder :: "fsnode \<Rightarrow> (string \<times> file_type) list"
  and postorder_entries :: "fsnode list \<Rightarrow> (string \<times> file_type) list" where
  "postorder (Entry p t cs) = (if t = S_IFDIR then postorder_entries cs else []) @ [(p, t)]"
| "postorder_entries [] = []"
| "postorder_entries (c # cs) = postorder c @ postorder_entries cs"

text \<open>
  For the proofs: what the code does at one entry, the walk over a list of entries (it
  stops at the first entry where the walk itself fails or \<open>fn\<close> returns a value other than
  0), and the invariant that the count is the number of the recorded calls that failed.
\<close>

definition applied :: "meta_env \<Rightarrow> string list \<Rightarrow> string \<times> file_type \<Rightarrow> int \<times> syscall list" where
  "applied env args e = ApplyParsedPerms (sys env) (fst e) (snd e) (ParsePermArgs env args)"

fun visit :: "(string \<Rightarrow> bool) \<Rightarrow> (string \<Rightarrow> file_type \<Rightarrow> int \<times> 'e list)
                \<Rightarrow> (string \<times> file_type) list \<Rightarrow> int \<times> 'e list" where
  "visit walk_err fn [] = (0, [])"
| "visit walk_err fn (e # es) =
     (if walk_err (fst e) then (- 1, [])
      else if fst (fn (fst e) (snd e)) \<noteq> 0 then fn (fst e) (snd e)
      else (fst (visit walk_err fn es), snd (fn (fst e) (snd e)) @ snd (visit walk_err fn es)))"

definition counts_failures :: "kernel \<Rightarrow> int \<times> syscall list \<Rightarrow> bool" where
  "counts_failures k s = (fst s = int (length (filter (counted k) (snd s))))"

section \<open>Filesystem provisioning: mount, unmount, format\<close>

text \<open>
  What the provisioning operations do to the outside world, in the order in which they do
  it. A message sent with \<open>uiPrintf\<close> is kept by its parts; the text that \<open>strerror\<close>
  gives for an \<open>errno\<close> is not modelled. \<open>LOG(ERROR)\<close> lines go to the log only and are
  left out.
\<close>

datatype diagnostic =
    Failed_to_mount string string string errno
  | Failed_to_unmount_No_such_volume string
  | Failed_to_unmount string errno

datatype fs_event =
    Setfscreatecon "string option"
  | Mkdir string nat
  | Mount string string string string
  | Unmount_mounted_volume string
  | Access string
  | Rename string string
  | Exec string "string list"
  | UiPrintf diagnostic

text \<open>
  The status that \<open>waitpid\<close> reports for a child: it exited with a code, or a signal ended
  it. \<open>WEXITSTATUS\<close> picks the bits 8 to 15 of the status, which are the exit code of a
  child that exited and 0 for one that a signal ended.
\<close>

datatype wait_status = Exited int | Signaled int

definition WEXITSTATUS :: "wait_status \<Rightarrow> int" where
  "WEXITSTATUS status = (case status of Exited code \<Rightarrow> code | Signaled sig \<Rightarrow> 0)"

text \<open>
  Modelled from the spec: the mount state. mounts.h is not among the sources.
  \<open>scan_mounted_volumes\<close> rebuilds the table from the system's view and
  \<open>find_mounted_volume_by_mount_point\<close> looks a mount point up in it.
\<close>

record MountedVolume =
  device :: string
  mount_point :: string
  filesystem :: string

text \<open>
  The environment of the provisioning operations: the label database (\<open>sehandle\<close> may be
  absent, and a lookup may find nothing), the results of the system calls, the table that
  a scan of the mounted volumes gives, the status with which an external tool ends, and
  \<open>android::base::ParseInt\<close> into an \<open>int64_t\<close>.
\<close>

record prov_env =
  sehandle :: bool
  selabel_lookup :: "string \<Rightarrow> string option"
  mount_result :: "string \<Rightarrow> string \<Rightarrow> string \<Rightarrow> string \<Rightarrow> errno option"
  scan_mounted_volumes :: "MountedVolume list"
  unmount_mounted_volume :: "MountedVolume \<Rightarrow> errno option"
  is_dir :: "string \<Rightarrow> bool"
  mkdir_result :: "string \<Rightarrow> errno option"
  access_F_OK :: "string \<Rightarrow> bool"
  rename_result :: "string \<Rightarrow> string \<Rightarrow> errno option"
  waitpid_status :: "string \<Rightarrow> string list \<Rightarrow> wait_status"
  ParseInt :: "string \<Rightarrow> int option"

definition find_mounted_volume_by_mount_point ::
  "prov_env \<Rightarrow> string \<Rightarrow> MountedVolume option" where
  "find_mounted_volume_by_mount_point env mp =
     find (\<lambda>v. mount_point v = mp) (scan_mounted_volumes env)"


definition UnmountFn :: "prov_env \<Rightarrow> string \<Rightarrow> Expr list \<Rightarrow> Result \<times> fs_event list" where
  "UnmountFn env name argv =
     (if length argv \<noteq> 1 then (ErrorAbort kArgsParsingFailure, [])
      else
        (case ReadArgs argv 0 (length argv) of
           None \<Rightarrow> (ErrorAbort kArgsParsingFailure, [])
         | Some args \<Rightarrow>
             (let mount_point = args ! 0
              in if mount_point = '''' then (ErrorAbort kArgsParsingFailure, [])
                 else
                   (case find_mounted_volume_by_mount_point env (c_str mount_point) of
                      None \<Rightarrow>
                        (Nullptr,
                         [UiPrintf (Failed_to_unmount_No_such_volume (c_str mount_point))])
                    | Some vol \<Rightarrow>
                        (case unmount_mounted_volume env vol of
                           Some e \<Rightarrow>
                             (Return (StringValue mount_point),
                              [Unmount_mounted_volume (MountedVolume.mount_point vol),
                               UiPrintf (Failed_to_unmount (c_str mount_point) e)])
                         | None \<Rightarrow>
                             (Return (StringValue mount_point),
                              [Unmount_mounted_volume (MountedVolume.mount_point vol)]))))))"

text \<open>
  \<open>exec_cmd\<close> runs the tool at \<open>path\<close> with the argument vector, waits for it and returns
  \<open>WEXITSTATUS\<close> of its status.
\<close>

definition exec_cmd :: "prov_env \<Rightarrow> string \<Rightarrow> string list \<Rightarrow> int \<times> fs_event list" where
  "exec_cmd env path args = (WEXITSTATUS (waitpid_status env path args), [Exec path args])"

text \<open>\<open>std::to_string\<close> of a signed integer: its decimal digits, with a minus sign.\<close>

definition digit_char :: "nat \<Rightarrow> char" where
  "digit_char d = char_of (48 + d)"

function decimal :: "nat \<Rightarrow> string" where
  "decimal n = (if n < 10 then [digit_char n] else decimal (n div 10) @ [digit_char (n mod 10)])"
  by pat_completeness auto
termination
  by (relation "measure (\<lambda>n. n)") auto

definition to_string :: "int \<Rightarrow> string" where
  "to_string i = (if i < 0 then CHR ''-'' # decimal (nat (- i)) else decimal (nat i))"

text \<open>
  \<open>format\<close>. The division of the 64-bit \<open>size\<close> (here \<open>size64\<close>) is C's, which truncates towards zero
  (\<open>sdiv\<close>). An argument vector ends at its first null pointer, so an argument that is
  left null is absent from the list.
\<close>

definition FormatFn :: "prov_env \<Rightarrow> string \<Rightarrow> Expr list \<Rightarrow> Result \<times> fs_event list" where
  "FormatFn env name argv =
     (if length argv \<noteq> 5 then (ErrorAbort kArgsParsingFailure, [])
      else
        (case ReadArgs argv 0 (length argv) of
           None \<Rightarrow> (ErrorAbort kArgsParsingFailure, [])
         | Some args \<Rightarrow>
             (let fs_type = args ! 0; partition_type = args ! 1; location = args ! 2;
                  fs_size = args ! 3; mount_point = args ! 4
              in if fs_type = '''' then (ErrorAbort kArgsParsingFailure, [])
                 else if partition_type = '''' then (ErrorAbort kArgsParsingFailure, [])
                 else if location = '''' then (ErrorAbort kArgsParsingFailure, [])
                 else if mount_point = '''' then (ErrorAbort kArgsParsingFailure, [])
                 else
                   (case ParseInt env (c_str fs_size) of
                      None \<Rightarrow> (ErrorAbort kArgsParsingFailure, [])
                    | Some size64 \<Rightarrow>
                        (if fs_type = ''ext4'' then
                           (let mke2fs_argv =
                                  [''/sbin/mke2fs_static'', ''-t'', ''ext4'', ''-b'', ''4096'',
                                   c_str location]
                                  @ (if size64 \<noteq> 0 then [to_string (size64 sdiv 4096)] else []);
                                made = exec_cmd env ''/sbin/mke2fs_static'' mke2fs_argv
                            in if fst made \<noteq> 0 then (Return (StringValue ''''), snd made)
                               else
                                 (let e2fsdroid_argv =
                                        [''/sbin/e2fsdroid_static'', ''-e'', ''-a'',
                                         c_str mount_point, c_str location];
                                      seeded =
                                        exec_cmd env ''/sbin/e2fsdroid_static'' e2fsdroid_argv
                                  in if fst seeded \<noteq> 0
                                     then (Return (StringValue ''''), snd made @ snd seeded)
                                     else (Return (StringValue location),
                                           snd made @ snd seeded)))
                         else if fs_type = ''f2fs'' then
                           (if size64 < 0 then (Return (StringValue ''''), [])
                            else
                              (let num_sectors = to_string (size64 sdiv 512);
                                   f2fs_argv =
                                     [''mkfs.f2fs'', ''-d1'', ''-f'', ''-O'', ''encrypt'',
                                      ''-O'', ''quota'', ''-O'', ''verity'', ''-w'', ''512'',
                                      c_str location]
                                     @ (if size64 < 512 then [] else [num_sectors]);
                                   made = exec_cmd env ''/sbin/mkfs.f2fs'' f2fs_argv
                               in if fst made \<noteq> 0 then (Return (StringValue ''''), snd made)
                                  else
                                    (let sload_argv =
                                           [''/sbin/sload.f2fs'', ''-t'', c_str mount_point,
                                            c_str location];
                                         loaded = exec_cmd env ''/sbin/sload.f2fs'' sload_argv
                                     in if fst loaded \<noteq> 0
                                        then (Return (StringValue ''''), snd made @ snd loaded)
                                        else (Return (StringValue location),
                                              snd made @ snd loaded))))
                         else (Nullptr, []))))))"

section \<open>rename\<close>






section \<open>apply_patch\<close>







section \<open>package_extract_file\<close>

text \<open>
  The package reader and the output file: \<open>FindEntry\<close> finds an entry by its path or not,
  \<open>ExtractEntryToFile\<close> and \<open>ExtractToMemory\<close> return a status (0 is success), the latter
  with the contents of the buffer after the call; \<open>ota_open\<close> gives a descriptor or fails,
  \<open>ota_fsync\<close> and \<open>ota_close\<close> return 0 or -1. Of a \<open>ZipEntry\<close> only the uncompressed
  length is used.
\<close>

record ZipEntry =
  uncompressed_length :: nat

datatype file_event =
    Ota_open string
  | Extract_entry_to_file string string
  | Ota_fsync string
  | Ota_close string

record package_env =
  FindEntry :: "string \<Rightarrow> ZipEntry option"
  ExtractEntryToFile :: "ZipEntry \<Rightarrow> string \<Rightarrow> int"
  ExtractToMemory :: "ZipEntry \<Rightarrow> nat \<Rightarrow> int \<times> string"
  ota_open :: "string \<Rightarrow> bool"
  ota_fsync :: "string \<Rightarrow> int"
  ota_close :: "string \<Rightarrow> int"

definition PackageExtractFileFn ::
  "package_env \<Rightarrow> string \<Rightarrow> Expr list \<Rightarrow> Result \<times> file_event list" where
  "PackageExtractFileFn env name argv =
     (if length argv < 1 \<or> length argv > 2 then (ErrorAbort kArgsParsingFailure, [])
      else if length argv = 2 then
        (case ReadArgs argv 0 (length argv) of
           None \<Rightarrow> (ErrorAbort kArgsParsingFailure, [])
         | Some args \<Rightarrow>
             (let zip_path = args ! 0; dest_path = args ! 1
              in (case FindEntry env (c_str zip_path) of
                    None \<Rightarrow> (Return (StringValue ''''), [])
                  | Some entry \<Rightarrow>
                      (if \<not> ota_open env (c_str dest_path)
                       then (Return (StringValue ''''), [Ota_open (c_str dest_path)])
                       else
                         (let success0 = True;
                              ret = ExtractEntryToFile env entry (c_str dest_path);
                              success1 = (if ret \<noteq> 0 then False else success0);
                              success2 =
                                (if ota_fsync env (c_str dest_path) = - 1 then False
                                 else success1);
                              success3 =
                                (if ota_close env (c_str dest_path) = - 1 then False
                                 else success2)
                          in (Return (StringValue (if success3 then ''t'' else '''')),
                              [Ota_open (c_str dest_path),
                               Extract_entry_to_file (c_str zip_path) (c_str dest_path),
                               Ota_fsync (c_str dest_path),
                               Ota_close (c_str dest_path)]))))))
      else
        (case ReadArgs argv 0 (length argv) of
           None \<Rightarrow> (ErrorAbort kArgsParsingFailure, [])
         | Some args \<Rightarrow>
             (let zip_path = args ! 0
              in (case FindEntry env (c_str zip_path) of
                    None \<Rightarrow> (ErrorAbort kPackageExtractFileFailure, [])
                  | Some entry \<Rightarrow>
                      (let extracted = ExtractToMemory env entry (uncompressed_length entry)
                       in if fst extracted \<noteq> 0
                          then (ErrorAbort kPackageExtractFileFailure, [])
                          else (Return (Value VAL_BLOB (snd extracted)), []))))))"

section \<open>The remaining registered operations\<close>


































text \<open>
  The four forms that the specification names for a returned value: an abort with a named
  kind, the truthy \<open>t\<close>, the empty string, or a blob. Then the handlers that also return
  other strings, and the handlers that can return null without recording an abort.
\<close>

definition four_forms :: "Result \<Rightarrow> bool" where
  "four_forms r =
     (case r of
        ErrorAbort kind \<Rightarrow> True
      | Nullptr \<Rightarrow> False
      | Return v \<Rightarrow> v = StringValue ''t'' \<or> v = StringValue '''' \<or> type v = VAL_BLOB)"



section \<open>Example environments\<close>

text \<open>
  Concrete environments, storages and argument lists at which the theorems below are
  instantiated.
\<close>

definition boot_env_ok :: boot_env where
  "boot_env_ok = \<lparr>write_ok = (\<lambda>p. True), quiescent = False, reboot_returns = (\<lambda>c. True)\<rparr>"

definition boot_env_readonly :: boot_env where
  "boot_env_readonly = \<lparr>write_ok = (\<lambda>p. False), quiescent = False, reboot_returns = (\<lambda>c. True)\<rparr>"

definition blank_message :: bootloader_message where
  "blank_message = \<lparr>command = ''boot-recovery'' @ replicate 19 (CHR 0x00),
                     stage = ''1/3'' @ replicate 29 (CHR 0x00),
                     other = ''recovery''\<rparr>"

definition no_misc :: misc_storage where
  "no_misc = Map.empty"

definition one_misc :: misc_storage where
  "one_misc = [''/misc'' \<mapsto> blank_message]"

definition scan_decimal_example :: "string \<Rightarrow> int option" where
  "scan_decimal_example s = (if s = ''0'' then Some 0 else None)"

definition scan_integer_example :: "string \<Rightarrow> int option" where
  "scan_integer_example s =
     (if s = ''0'' then Some 0 else if s = ''0644'' then Some 420 else None)"

definition tree_example :: fsnode where
  "tree_example =
     Entry ''/d'' S_IFDIR [Entry ''/d/a'' S_IFREG [], Entry ''/d/b'' S_IFREG []]"

definition kernel_chown_a_fails :: kernel where
  "kernel_chown_a_fails c = (if c = Chown ''/d/a'' 0 (gid_t (- 1)) then Some EPERM else None)"

definition kernel_ok :: kernel where
  "kernel_ok c = None"

definition meta_env_a_fails :: meta_env where
  "meta_env_a_fails =
     \<lparr>sscanf_SCNd64 = scan_decimal_example, sscanf_SCNi32 = scan_integer_example,
      sscanf_SCNi64 = scan_integer_example,
      fs_tree = [''/d'' \<mapsto> tree_example], walk_fails = (\<lambda>p. False),
      sys = kernel_chown_a_fails\<rparr>"

definition meta_env_ok :: meta_env where
  "meta_env_ok =
     \<lparr>sscanf_SCNd64 = scan_decimal_example, sscanf_SCNi32 = scan_integer_example,
      sscanf_SCNi64 = scan_integer_example,
      fs_tree = [''/d'' \<mapsto> tree_example], walk_fails = (\<lambda>p. False),
      sys = kernel_ok\<rparr>"

definition meta_argv_example :: "Expr list" where
  "meta_argv_example =
     [Some (StringValue ''/d''), Some (StringValue ''uid''), Some (StringValue ''0''),
      Some (StringValue ''mode''), Some (StringValue ''0644'')]"

text \<open>
  A tree with a directory, a symbolic link and regular files. The kernel refuses the change
  of group of \<open>/t/b\<close>; no file has a capability attribute, so that its removal ends with
  \<open>ENODATA\<close>.
\<close>

definition scan_id_example :: "string \<Rightarrow> int option" where
  "scan_id_example s =
     (if s = ''4294967296'' then Some 4294967296 else if s = ''1000'' then Some 1000
      else None)"

definition scan_mode_example :: "string \<Rightarrow> int option" where
  "scan_mode_example s =
     (if s = ''0755'' then Some 493 else if s = ''0644'' then Some 420 else None)"

definition tree_walk_example :: fsnode where
  "tree_walk_example =
     Entry ''/t'' S_IFDIR
       [Entry ''/t/s'' S_IFDIR [Entry ''/t/s/a'' S_IFREG []],
        Entry ''/t/l'' S_IFLNK [],
        Entry ''/t/b'' S_IFREG [],
        Entry ''/t/c'' S_IFREG []]"

definition kernel_chgrp_b_fails :: kernel where
  "kernel_chgrp_b_fails c =
     (case c of
        Removexattr_caps f \<Rightarrow> Some ENODATA
      | Chown f u g \<Rightarrow> (if f = ''/t/b'' \<and> g = 1000 then Some EPERM else None)
      | _ \<Rightarrow> None)"

definition meta_env_b_fails :: meta_env where
  "meta_env_b_fails =
     \<lparr>sscanf_SCNd64 = scan_id_example, sscanf_SCNi32 = scan_mode_example,
      sscanf_SCNi64 = scan_integer_example,
      fs_tree = [''/t'' \<mapsto> tree_walk_example], walk_fails = (\<lambda>p. False),
      sys = kernel_chgrp_b_fails\<rparr>"

definition meta_args_walk_example :: "string list" where
  "meta_args_walk_example =
     [''/t'', ''uid'', ''4294967296'', ''gid'', ''1000'', ''dmode'', ''0755'',
      ''fmode'', ''0644'', ''capabilities'', ''0'', ''selabel'', ''u:object_r:system_file:s0'']"

definition meta_argv_walk_example :: "Expr list" where
  "meta_argv_walk_example = map (\<lambda>s. Some (StringValue s)) meta_args_walk_example"

definition parse_int_example :: "string \<Rightarrow> int option" where
  "parse_int_example s =
     (if s = ''0'' then Some 0
      else if s = ''100'' then Some 100
      else if s = ''8192'' then Some 8192
      else if s = ''1048576'' then Some 1048576
      else if s = ''-4096'' then Some (- 4096)
      else None)"

definition system_volume :: MountedVolume where
  "system_volume =
     \<lparr>device = ''/dev/block/system'', mount_point = ''/system'', filesystem = ''ext4''\<rparr>"

definition prov_env_ok :: prov_env where
  "prov_env_ok =
     \<lparr>sehandle = False, selabel_lookup = (\<lambda>p. None),
      mount_result = (\<lambda>location mp fs_type options. None),
      scan_mounted_volumes = [system_volume],
      unmount_mounted_volume = (\<lambda>vol. None),
      is_dir = (\<lambda>p. True), mkdir_result = (\<lambda>p. None),
      access_F_OK = (\<lambda>p. p = ''/system/app/old.apk''),
      rename_result = (\<lambda>src dst. None),
      waitpid_status = (\<lambda>tool args. Exited 0),
      ParseInt = parse_int_example\<rparr>"

definition prov_env_busy :: prov_env where
  "prov_env_busy = prov_env_ok\<lparr>unmount_mounted_volume := (\<lambda>vol. Some EIO)\<rparr>"


definition format_argv :: "string \<Rightarrow> string \<Rightarrow> Expr list" where
  "format_argv fs_type fs_size =
     [Some (StringValue fs_type), Some (StringValue ''EMMC''),
      Some (StringValue ''/dev/block/userdata''), Some (StringValue fs_size),
      Some (StringValue ''/data'')]"







definition package_env_ok :: package_env where
  "package_env_ok =
     \<lparr>FindEntry = (\<lambda>p. if p = ''boot.img'' then Some \<lparr>uncompressed_length = 4\<rparr> else None),
      ExtractEntryToFile = (\<lambda>entry dest. 0),
      ExtractToMemory = (\<lambda>entry n. (0, ''ANDR'')),
      ota_open = (\<lambda>p. True), ota_fsync = (\<lambda>p. 0), ota_close = (\<lambda>p. 0)\<rparr>"

definition package_env_fsync_fails :: package_env where
  "package_env_fsync_fails = package_env_ok\<lparr>ota_fsync := (\<lambda>p. - 1)\<rparr>"



section \<open>Properties of the staged reboot operations\<close>

lemma c_str_no_nul: "CHR 0x00 \<notin> set s \<Longrightarrow> c_str s = s"
  unfolding c_str_def by (induction s) auto

lemma c_str_append_nul:
  "\<forall>c \<in> set xs. c \<noteq> CHR 0x00 \<Longrightarrow> c_str (xs @ CHR 0x00 # ys) = xs"
  unfolding c_str_def by (induction xs) auto

lemma c_str_has_no_nul: "CHR 0x00 \<notin> set (take n (c_str s))"
proof
  assume "CHR 0x00 \<in> set (take n (c_str s))"
  then have "CHR 0x00 \<in> set (takeWhile (\<lambda>c. c \<noteq> CHR 0x00) s)"
    unfolding c_str_def by (rule in_set_takeD)
  then show False by (auto dest: set_takeWhileD)
qed

lemma c_str_strlcpy:
  assumes "0 < dsize"
  shows "c_str (strlcpy dst src dsize) = take (dsize - 1) (c_str src)"
proof -
  have "\<forall>c \<in> set (take (dsize - 1) (c_str src)). c \<noteq> CHR 0x00"
    using c_str_has_no_nul[of "dsize - 1" src] by blast
  then have "c_str (take (dsize - 1) (c_str src) @ CHR 0x00 # drop (Suc (min (length (c_str src)) (dsize - 1))) dst)
               = take (dsize - 1) (c_str src)"
    by (rule c_str_append_nul)
  moreover have "strlcpy dst src dsize =
      take (dsize - 1) (c_str src) @ CHR 0x00 # drop (Suc (min (length (c_str src)) (dsize - 1))) dst"
    using assms by (simp add: strlcpy_def Let_def min_def)
  ultimately show ?thesis by simp
qed

lemma ReadArgs_strings2:
  "ReadArgs [Some (StringValue a), Some (StringValue b)] 0 (length [Some (StringValue a), Some (StringValue b)]) = Some [a, b]"
  by (simp add: ReadArgs_def Evaluate_def StringValue_def)

lemma ReadArgs_strings1:
  "ReadArgs [Some (StringValue a)] 0 (length [Some (StringValue a)]) = Some [a]"
  by (simp add: ReadArgs_def Evaluate_def StringValue_def)

lemma SetStageFn_storage:
  "snd (SetStageFn env name argv m) = m \<or>
   (\<exists>filename boot s. m filename = Some boot \<and>
      snd (SetStageFn env name argv m) = m(filename \<mapsto> boot\<lparr>stage := s\<rparr>))"
proof (cases "length argv \<noteq> 2")
  case True
  then show ?thesis by (simp add: SetStageFn_def)
next
  case len: False
  show ?thesis
  proof (cases "ReadArgs argv 0 (length argv)")
    case None
    with len show ?thesis by (simp add: SetStageFn_def)
  next
    case (Some args)
    show ?thesis
    proof (cases "m (args ! 0)")
      case None
      with len Some show ?thesis
        by (simp add: SetStageFn_def read_bootloader_message_from_def)
    next
      case (Some boot)
      show ?thesis
      proof (cases "write_ok env (args ! 0)")
        case False
        with len \<open>ReadArgs argv 0 (length argv) = Some args\<close> Some show ?thesis
          by (simp add: SetStageFn_def read_bootloader_message_from_def
              write_bootloader_message_to_def Let_def)
      next
        case True
        with len \<open>ReadArgs argv 0 (length argv) = Some args\<close> Some
        have "snd (SetStageFn env name argv m) =
                m(args ! 0 \<mapsto> boot\<lparr>stage := strlcpy (stage boot) (args ! 1) (length (stage boot))\<rparr>)"
          by (simp add: SetStageFn_def read_bootloader_message_from_def
              write_bootloader_message_to_def Let_def)
        with Some show ?thesis by blast
      qed
    qed
  qed
qed

lemma RebootNowFn_storage:
  "fst (snd (RebootNowFn env name argv m)) = m \<or>
   (\<exists>filename boot. m filename = Some boot \<and>
      fst (snd (RebootNowFn env name argv m)) =
        m(filename \<mapsto> boot\<lparr>command := replicate (length (command boot)) (CHR 0x00)\<rparr>))"
proof (cases "length argv \<noteq> 2")
  case True
  then show ?thesis by (simp add: RebootNowFn_def)
next
  case len: False
  show ?thesis
  proof (cases "ReadArgs argv 0 (length argv)")
    case None
    with len show ?thesis by (simp add: RebootNowFn_def)
  next
    case (Some args)
    show ?thesis
    proof (cases "m (args ! 0)")
      case None
      with len Some show ?thesis
        by (simp add: RebootNowFn_def read_bootloader_message_from_def)
    next
      case (Some boot)
      show ?thesis
      proof (cases "write_ok env (args ! 0)")
        case False
        with len \<open>ReadArgs argv 0 (length argv) = Some args\<close> Some show ?thesis
          by (simp add: RebootNowFn_def read_bootloader_message_from_def
              write_bootloader_message_to_def Let_def)
      next
        case True
        with len \<open>ReadArgs argv 0 (length argv) = Some args\<close> Some
        have "fst (snd (RebootNowFn env name argv m)) =
                m(args ! 0 \<mapsto> boot\<lparr>command := replicate (length (command boot)) (CHR 0x00)\<rparr>)"
          by (simp add: RebootNowFn_def read_bootloader_message_from_def
              write_bootloader_message_to_def Let_def)
        with Some show ?thesis by blast
      qed
    qed
  qed
qed

lemma replicate_unroll: "0 < n \<Longrightarrow> replicate n x = x # replicate (n - 1) x"
  by (cases n) auto

lemma set_then_get_stage:
  assumes "m filename = Some boot" and "write_ok env filename" and "0 < length (stage boot)"
  shows "fst (SetStageFn env n1 [Some (StringValue filename), Some (StringValue token)] m)
           = Return (StringValue filename)
       \<and> GetStageFn n2 [Some (StringValue filename)]
            (snd (SetStageFn env n1 [Some (StringValue filename), Some (StringValue token)] m))
           = Return (StringValue (take (length (stage boot) - 1) (c_str token)))"
  using assms ReadArgs_strings2[of filename token] ReadArgs_strings1[of filename]
  by (simp add: SetStageFn_def GetStageFn_def read_bootloader_message_from_def
        write_bootloader_message_to_def Let_def c_str_strlcpy)

text \<open>
  Claim C2, as amended. When the boot-control record cannot be read, or cannot be written
  back, \<open>reboot_now\<close> returns the empty string, a soft falsy result: the storage is as it
  was and no reboot is requested. Only when the record was written and the reboot request
  returns control does the call end in the abort of kind \<open>kRebootFailure\<close>.
\<close>

theorem reboot_now_failure_modes:
  assumes "argv = [Some (StringValue filename), Some (StringValue property)]"
  shows "(m filename = None \<longrightarrow>
            RebootNowFn env name argv m = (Some (Return (StringValue '''')), m, []))
       \<and> (m filename \<noteq> None \<and> \<not> write_ok env filename \<longrightarrow>
            RebootNowFn env name argv m = (Some (Return (StringValue '''')), m, []))
       \<and> (m filename \<noteq> None \<and> write_ok env filename \<and>
          reboot_returns env
            (''reboot,'' @ property @ (if quiescent env then '',quiescent'' else ''''))
            \<longrightarrow> fst (RebootNowFn env name argv m) = Some (ErrorAbort kRebootFailure))"
  using assms ReadArgs_strings2[of filename "property"]
  by (auto simp: RebootNowFn_def read_bootloader_message_from_def
        write_bootloader_message_to_def Let_def)

theorem reboot_now_failure_modes_witness:
  "no_misc ''/misc'' = None
   \<and> RebootNowFn boot_env_ok ''reboot_now''
         [Some (StringValue ''/misc''), Some (StringValue ''recovery'')] no_misc
       = (Some (Return (StringValue '''')), no_misc, [])
   \<and> one_misc ''/misc'' \<noteq> None \<and> \<not> write_ok boot_env_readonly ''/misc''
   \<and> RebootNowFn boot_env_readonly ''reboot_now''
         [Some (StringValue ''/misc''), Some (StringValue ''recovery'')] one_misc
       = (Some (Return (StringValue '''')), one_misc, [])
   \<and> write_ok boot_env_ok ''/misc'' \<and> reboot_returns boot_env_ok ''reboot,recovery''
   \<and> fst (RebootNowFn boot_env_ok ''reboot_now''
         [Some (StringValue ''/misc''), Some (StringValue ''recovery'')] one_misc)
       = Some (ErrorAbort kRebootFailure)"
  using
    reboot_now_failure_modes
      [of "[Some (StringValue ''/misc''), Some (StringValue ''recovery'')]"
          "''/misc''" "''recovery''" no_misc boot_env_ok "''reboot_now''"]
    reboot_now_failure_modes
      [of "[Some (StringValue ''/misc''), Some (StringValue ''recovery'')]"
          "''/misc''" "''recovery''" one_misc boot_env_readonly "''reboot_now''"]
    reboot_now_failure_modes
      [of "[Some (StringValue ''/misc''), Some (StringValue ''recovery'')]"
          "''/misc''" "''recovery''" one_misc boot_env_ok "''reboot_now''"]
  by (simp add: no_misc_def one_misc_def boot_env_ok_def boot_env_readonly_def)

text \<open>
  Claim C2 as stated fails: with an unreadable record, and with a record that cannot be
  written back, \<open>reboot_now\<close> returns the empty string and not the abort.
\<close>

theorem reboot_now_soft_counterexample:
  "fst (RebootNowFn boot_env_ok ''reboot_now''
          [Some (StringValue ''/misc''), Some (StringValue '''')] no_misc)
     = Some (Return (StringValue ''''))
   \<and> fst (RebootNowFn boot_env_ok ''reboot_now''
          [Some (StringValue ''/misc''), Some (StringValue '''')] no_misc)
     \<noteq> Some (ErrorAbort kRebootFailure)
   \<and> fst (RebootNowFn boot_env_readonly ''reboot_now''
        [Some (StringValue ''/misc''), Some (StringValue '''')] one_misc)
     = Some (Return (StringValue ''''))
   \<and> fst (RebootNowFn boot_env_readonly ''reboot_now''
        [Some (StringValue ''/misc''), Some (StringValue '''')] one_misc)
     \<noteq> Some (ErrorAbort kRebootFailure)"
proof -
  have a: "fst (RebootNowFn boot_env_ok ''reboot_now''
          [Some (StringValue ''/misc''), Some (StringValue '''')] no_misc)
     = Some (Return (StringValue ''''))"
    using ReadArgs_strings2[of "''/misc''" "''''"]
    by (simp add: RebootNowFn_def no_misc_def read_bootloader_message_from_def)
  have b: "fst (RebootNowFn boot_env_readonly ''reboot_now''
        [Some (StringValue ''/misc''), Some (StringValue '''')] one_misc)
     = Some (Return (StringValue ''''))"
    using ReadArgs_strings2[of "''/misc''" "''''"]
    by (simp add: RebootNowFn_def one_misc_def read_bootloader_message_from_def
        write_bootloader_message_to_def boot_env_readonly_def)
  show ?thesis unfolding a b by simp
qed

text \<open>
  Claim C3. Whatever the arguments and the storage, \<open>set_stage\<close> leaves the storage as it
  was, or replaces the record at one path by the same record with another stage field: the
  command and all other contents are written back unchanged. \<open>reboot_now\<close> leaves the
  storage as it was, or replaces one record by the same record with the command field
  zeroed: the stage and all other contents are unchanged.
\<close>

theorem boot_record_frame:
  "(snd (SetStageFn env name argv m) = m \<or>
      (\<exists>filename boot boot'. m filename = Some boot \<and>
          snd (SetStageFn env name argv m) = m(filename \<mapsto> boot') \<and>
          command boot' = command boot \<and> other boot' = other boot \<and>
          boot' = boot\<lparr>stage := stage boot'\<rparr>))
 \<and> (fst (snd (RebootNowFn env name' argv' m)) = m \<or>
      (\<exists>filename boot boot'. m filename = Some boot \<and>
          fst (snd (RebootNowFn env name' argv' m)) = m(filename \<mapsto> boot') \<and>
          stage boot' = stage boot \<and> other boot' = other boot \<and>
          boot' = boot\<lparr>command := replicate (length (command boot)) (CHR 0x00)\<rparr>))"
proof
  from SetStageFn_storage[of env name argv m]
  show "snd (SetStageFn env name argv m) = m \<or>
      (\<exists>filename boot boot'. m filename = Some boot \<and>
          snd (SetStageFn env name argv m) = m(filename \<mapsto> boot') \<and>
          command boot' = command boot \<and> other boot' = other boot \<and>
          boot' = boot\<lparr>stage := stage boot'\<rparr>)"
  proof
    assume "snd (SetStageFn env name argv m) = m"
    then show ?thesis by (rule disjI1)
  next
    assume "\<exists>filename boot s. m filename = Some boot \<and>
      snd (SetStageFn env name argv m) = m(filename \<mapsto> boot\<lparr>stage := s\<rparr>)"
    then obtain filename boot s where h: "m filename = Some boot"
      "snd (SetStageFn env name argv m) = m(filename \<mapsto> boot\<lparr>stage := s\<rparr>)" by blast
    have "command (boot\<lparr>stage := s\<rparr>) = command boot \<and> other (boot\<lparr>stage := s\<rparr>) = other boot
        \<and> boot\<lparr>stage := s\<rparr> = boot\<lparr>stage := stage (boot\<lparr>stage := s\<rparr>)\<rparr>" by simp
    with h show ?thesis by blast
  qed
next
  from RebootNowFn_storage[of env name' argv' m]
  show "fst (snd (RebootNowFn env name' argv' m)) = m \<or>
      (\<exists>filename boot boot'. m filename = Some boot \<and>
          fst (snd (RebootNowFn env name' argv' m)) = m(filename \<mapsto> boot') \<and>
          stage boot' = stage boot \<and> other boot' = other boot \<and>
          boot' = boot\<lparr>command := replicate (length (command boot)) (CHR 0x00)\<rparr>)"
  proof
    assume "fst (snd (RebootNowFn env name' argv' m)) = m"
    then show ?thesis by (rule disjI1)
  next
    assume "\<exists>filename boot. m filename = Some boot \<and>
      fst (snd (RebootNowFn env name' argv' m)) =
        m(filename \<mapsto> boot\<lparr>command := replicate (length (command boot)) (CHR 0x00)\<rparr>)"
    then obtain filename boot where h: "m filename = Some boot"
      "fst (snd (RebootNowFn env name' argv' m)) =
        m(filename \<mapsto> boot\<lparr>command := replicate (length (command boot)) (CHR 0x00)\<rparr>)" by blast
    have "stage (boot\<lparr>command := replicate (length (command boot)) (CHR 0x00)\<rparr>) = stage boot
       \<and> other (boot\<lparr>command := replicate (length (command boot)) (CHR 0x00)\<rparr>) = other boot" by simp
    with h show ?thesis by blast
  qed
qed

theorem boot_record_frame_witness:
  "(snd (SetStageFn boot_env_ok ''set_stage''
           [Some (StringValue ''/misc''), Some (StringValue ''2/3'')] one_misc) = one_misc \<or>
      (\<exists>filename boot boot'. one_misc filename = Some boot \<and>
          snd (SetStageFn boot_env_ok ''set_stage''
                 [Some (StringValue ''/misc''), Some (StringValue ''2/3'')] one_misc)
            = one_misc(filename \<mapsto> boot') \<and>
          command boot' = command boot \<and> other boot' = other boot \<and>
          boot' = boot\<lparr>stage := stage boot'\<rparr>))
 \<and> (fst (snd (RebootNowFn boot_env_ok ''reboot_now''
           [Some (StringValue ''/misc''), Some (StringValue '''')] one_misc)) = one_misc \<or>
      (\<exists>filename boot boot'. one_misc filename = Some boot \<and>
          fst (snd (RebootNowFn boot_env_ok ''reboot_now''
                 [Some (StringValue ''/misc''), Some (StringValue '''')] one_misc))
            = one_misc(filename \<mapsto> boot') \<and>
          stage boot' = stage boot \<and> other boot' = other boot \<and>
          boot' = boot\<lparr>command := replicate (length (command boot)) (CHR 0x00)\<rparr>))
 \<and> snd (SetStageFn boot_env_ok ''set_stage''
           [Some (StringValue ''/misc''), Some (StringValue ''2/3'')] one_misc) ''/misc''
      = Some (blank_message\<lparr>stage := ''2/3'' @ replicate 29 (CHR 0x00)\<rparr>)
 \<and> fst (snd (RebootNowFn boot_env_ok ''reboot_now''
           [Some (StringValue ''/misc''), Some (StringValue '''')] one_misc)) ''/misc''
      = Some (blank_message\<lparr>command := replicate 32 (CHR 0x00)\<rparr>)"
proof -
  have s: "snd (SetStageFn boot_env_ok ''set_stage''
           [Some (StringValue ''/misc''), Some (StringValue ''2/3'')] one_misc) ''/misc''
      = Some (blank_message\<lparr>stage := ''2/3'' @ replicate 29 (CHR 0x00)\<rparr>)"
    using ReadArgs_strings2[of "''/misc''" "''2/3''"]
    by (simp add: SetStageFn_def one_misc_def boot_env_ok_def blank_message_def
        read_bootloader_message_from_def write_bootloader_message_to_def
        strlcpy_def c_str_def Let_def replicate_unroll)
  have r: "fst (snd (RebootNowFn boot_env_ok ''reboot_now''
           [Some (StringValue ''/misc''), Some (StringValue '''')] one_misc)) ''/misc''
      = Some (blank_message\<lparr>command := replicate 32 (CHR 0x00)\<rparr>)"
    using ReadArgs_strings2[of "''/misc''" "''''"]
    by (simp add: RebootNowFn_def one_misc_def boot_env_ok_def blank_message_def
        read_bootloader_message_from_def write_bootloader_message_to_def Let_def)
  from boot_record_frame [of boot_env_ok "''set_stage''"
      "[Some (StringValue ''/misc''), Some (StringValue ''2/3'')]" one_misc "''reboot_now''"
      "[Some (StringValue ''/misc''), Some (StringValue '''')]"] s r
  show ?thesis by blast
qed

text \<open>
  Claim C4, as amended. On a readable and writable record whose stage array has \<open>n > 0\<close>
  bytes, \<open>set_stage\<close> with a token followed by \<open>get_stage\<close> returns the first \<open>n - 1\<close>
  bytes of the token read as a C string (its bytes before the first NUL): a token without a
  NUL byte comes back exactly when it has at most \<open>n - 1\<close> bytes and cut to \<open>n - 1\<close> bytes
  when it is longer, and \<open>set_stage\<close> succeeds in both cases.
\<close>

theorem set_stage_get_stage_roundtrip:
  assumes "m filename = Some boot" and "write_ok env filename" and "0 < length (stage boot)"
  shows "fst (SetStageFn env n1 [Some (StringValue filename), Some (StringValue token)] m)
           = Return (StringValue filename)
       \<and> GetStageFn n2 [Some (StringValue filename)]
            (snd (SetStageFn env n1 [Some (StringValue filename), Some (StringValue token)] m))
           = Return (StringValue (take (length (stage boot) - 1) (c_str token)))
       \<and> (CHR 0x00 \<notin> set token \<longrightarrow>
            GetStageFn n2 [Some (StringValue filename)]
              (snd (SetStageFn env n1
                 [Some (StringValue filename), Some (StringValue token)] m))
            = Return (StringValue
                (if length token \<le> length (stage boot) - 1 then token
                 else take (length (stage boot) - 1) token)))"
  using set_then_get_stage [of m filename boot env n1 token n2] assms
  by (simp add: c_str_no_nul)

theorem set_stage_get_stage_roundtrip_witness:
  "one_misc ''/misc'' = Some blank_message \<and> write_ok boot_env_ok ''/misc''
   \<and> 0 < length (stage blank_message) \<and> CHR 0x00 \<notin> set ''S2''
   \<and> fst (SetStageFn boot_env_ok ''set_stage''
            [Some (StringValue ''/misc''), Some (StringValue ''S2'')] one_misc)
        = Return (StringValue ''/misc'')
   \<and> GetStageFn ''get_stage'' [Some (StringValue ''/misc'')]
        (snd (SetStageFn boot_env_ok ''set_stage''
                [Some (StringValue ''/misc''), Some (StringValue ''S2'')] one_misc))
        = Return (StringValue ''S2'')
   \<and> GetStageFn ''get_stage'' [Some (StringValue ''/misc'')]
        (snd (SetStageFn boot_env_ok ''set_stage''
                [Some (StringValue ''/misc''),
                 Some (StringValue ''0123456789abcdefghijklmnopqrstuvwxyz'')] one_misc))
        = Return (StringValue ''0123456789abcdefghijklmnopqrstu'')"
proof -
  have h: "one_misc ''/misc'' = Some blank_message" "write_ok boot_env_ok ''/misc''"
    "0 < length (stage blank_message)"
    by (simp_all add: one_misc_def boot_env_ok_def blank_message_def)
  have l: "length (stage blank_message) = 32"
    by (simp add: blank_message_def)
  from set_stage_get_stage_roundtrip
         [of one_misc "''/misc''" blank_message boot_env_ok "''set_stage''" "''S2''"
             "''get_stage''"]
       set_stage_get_stage_roundtrip
         [of one_misc "''/misc''" blank_message boot_env_ok "''set_stage''"
             "''0123456789abcdefghijklmnopqrstuvwxyz''" "''get_stage''"] h l
  show ?thesis by (simp add: c_str_def)
qed

text \<open>
  Claim C4 as stated fails for a token with a NUL byte in it: the three bytes \<open>A\<close>, NUL,
  \<open>B\<close> fit the 32-byte stage array, and \<open>get_stage\<close> returns \<open>A\<close>.
\<close>

theorem set_stage_embedded_nul_counterexample:
  "length [CHR ''A'', CHR 0x00, CHR ''B''] \<le> length (stage blank_message) - 1
   \<and> GetStageFn ''get_stage'' [Some (StringValue ''/misc'')]
        (snd (SetStageFn boot_env_ok ''set_stage''
                [Some (StringValue ''/misc''),
                 Some (StringValue [CHR ''A'', CHR 0x00, CHR ''B''])] one_misc))
        = Return (StringValue ''A'')
   \<and> GetStageFn ''get_stage'' [Some (StringValue ''/misc'')]
        (snd (SetStageFn boot_env_ok ''set_stage''
                [Some (StringValue ''/misc''),
                 Some (StringValue [CHR ''A'', CHR 0x00, CHR ''B''])] one_misc))
        \<noteq> Return (StringValue [CHR ''A'', CHR 0x00, CHR ''B''])"
proof -
  have h: "one_misc ''/misc'' = Some blank_message" "write_ok boot_env_ok ''/misc''"
    "0 < length (stage blank_message)"
    by (simp_all add: one_misc_def boot_env_ok_def blank_message_def)
  have "GetStageFn ''get_stage'' [Some (StringValue ''/misc'')]
        (snd (SetStageFn boot_env_ok ''set_stage''
                [Some (StringValue ''/misc''),
                 Some (StringValue [CHR ''A'', CHR 0x00, CHR ''B''])] one_misc))
        = Return (StringValue (take (length (stage blank_message) - 1)
                    (c_str [CHR ''A'', CHR 0x00, CHR ''B''])))"
    using set_then_get_stage
         [of one_misc "''/misc''" blank_message boot_env_ok "''set_stage''"
             "[CHR ''A'', CHR 0x00, CHR ''B'']" "''get_stage''"] h
    by simp
  then have g: "GetStageFn ''get_stage'' [Some (StringValue ''/misc'')]
        (snd (SetStageFn boot_env_ok ''set_stage''
                [Some (StringValue ''/misc''),
                 Some (StringValue [CHR ''A'', CHR 0x00, CHR ''B''])] one_misc))
        = Return (StringValue ''A'')"
    by (simp add: blank_message_def c_str_def)
  show ?thesis unfolding g by (simp add: blank_message_def StringValue_def)
qed

section \<open>Properties of the metadata operations\<close>

lemma visit_append:
  "visit w fn (xs @ ys) =
     (if fst (visit w fn xs) \<noteq> 0 then visit w fn xs
      else (fst (visit w fn ys), snd (visit w fn xs) @ snd (visit w fn ys)))"
  by (induction xs) (auto simp: Let_def)

lemma nftw_visit:
  "nftw w fn t = visit w fn (postorder t)"
  "nftw_entries w fn cs = visit w fn (postorder_entries cs)"
  by (induction w fn t and w fn cs rule: nftw_nftw_entries.induct)
     (auto simp: visit_append Let_def prod_eq_iff)

lemma visit_first_failure:
  assumes "\<forall>e \<in> set es. \<not> w (fst e)"
  shows "visit w fn es =
     (case dropWhile (\<lambda>e. fst (fn (fst e) (snd e)) = 0) es of
        [] \<Rightarrow> (0, concat (map (\<lambda>e. snd (fn (fst e) (snd e))) es))
      | e # rest \<Rightarrow>
          (fst (fn (fst e) (snd e)),
           concat (map (\<lambda>e. snd (fn (fst e) (snd e)))
                     (takeWhile (\<lambda>e. fst (fn (fst e) (snd e)) = 0) es))
             @ snd (fn (fst e) (snd e))))"
  using assms
proof (induction es)
  case Nil
  then show ?case by simp
next
  case (Cons a es)
  then have ih: "visit w fn es =
     (case dropWhile (\<lambda>e. fst (fn (fst e) (snd e)) = 0) es of
        [] \<Rightarrow> (0, concat (map (\<lambda>e. snd (fn (fst e) (snd e))) es))
      | e # rest \<Rightarrow>
          (fst (fn (fst e) (snd e)),
           concat (map (\<lambda>e. snd (fn (fst e) (snd e)))
                     (takeWhile (\<lambda>e. fst (fn (fst e) (snd e)) = 0) es))
             @ snd (fn (fst e) (snd e))))"
    by simp
  from Cons.prems have nw: "\<not> w (fst a)" by simp
  show ?case
  proof (cases "fst (fn (fst a) (snd a)) = 0")
    case False
    with nw show ?thesis by (simp add: prod_eq_iff)
  next
    case True
    show ?thesis
    proof (cases "dropWhile (\<lambda>e. fst (fn (fst e) (snd e)) = 0) es")
      case Nil
      with True nw ih show ?thesis by (simp del: dropWhile_eq_Nil_conv)
    next
      case (Cons e rest)
      with True nw ih show ?thesis by simp
    qed
  qed
qed

lemma dropWhile_head: "dropWhile P xs = y # ys \<Longrightarrow> \<not> P y"
  by (induction xs) (auto split: if_splits)

lemma counts_failures_plain:
  assumes "counts_failures k s" and "\<And>f. c \<noteq> Removexattr_caps f"
  shows "counts_failures k (if b then apply_attr k (\<lambda>e. False) c s else s)"
  using assms
  by (cases c) (auto simp: counts_failures_def apply_attr_def counted_def split: option.splits)

lemma counts_failures_caps:
  assumes "counts_failures k s"
  shows "counts_failures k
           (if b then (if z then apply_attr k (\<lambda>e. e = ENODATA) (Removexattr_caps f) s
                       else apply_attr k (\<lambda>e. False) (Setxattr_caps f x y) s)
            else s)"
  using assms
  by (auto simp: counts_failures_def apply_attr_def counted_def split: option.splits)

lemma counts_failures_if:
  "counts_failures k a \<Longrightarrow> counts_failures k b \<Longrightarrow> counts_failures k (if c then a else b)"
  by simp

lemma ApplyParsedPerms_counts: "counts_failures k (ApplyParsedPerms k f t p)"
proof -
  have s0: "counts_failures k (0, [])" by (simp add: counts_failures_def)
  show ?thesis
    unfolding ApplyParsedPerms_def Let_def
    apply (rule counts_failures_if)
     apply (rule counts_failures_plain[OF s0], simp)
    apply (rule counts_failures_caps)
    apply (rule counts_failures_plain)+
          apply (rule s0)
         apply simp_all
    done
qed

lemma ApplyParsedPerms_nonneg: "0 \<le> fst (ApplyParsedPerms k f t p)"
  using ApplyParsedPerms_counts[of k f t p] by (simp add: counts_failures_def)

lemma SetMetadataFn_recursive:
  assumes "length argv mod 2 = 1" and "ReadArgs argv 0 (length argv) = Some args"
    and "fs_tree env (c_str (args ! 0)) = Some found"
  shows "SetMetadataFn env ''set_metadata_recursive'' argv =
     (let walked = nftw (walk_fails env)
                     (\<lambda>filename statptr.
                        ApplyParsedPerms (sys env) filename statptr (ParsePermArgs env args))
                     found
      in (if fst walked > 0 then ErrorAbort kSetMetadataFailure
          else Return (StringValue ''''), snd walked))"
  using assms by (simp add: SetMetadataFn_def Let_def)

lemma SetMetadataFn_recursive_walk:
  assumes "length argv mod 2 = 1" and "ReadArgs argv 0 (length argv) = Some args"
    and "fs_tree env (c_str (args ! 0)) = Some found"
    and "\<forall>e \<in> set (postorder found). \<not> walk_fails env (fst e)"
  shows "SetMetadataFn env ''set_metadata_recursive'' argv =
     (case dropWhile (\<lambda>e. fst (applied env args e) = 0) (postorder found) of
        [] \<Rightarrow> (Return (StringValue ''''),
               concat (map (\<lambda>e. snd (applied env args e)) (postorder found)))
      | e # rest \<Rightarrow>
          (ErrorAbort kSetMetadataFailure,
           concat (map (\<lambda>e. snd (applied env args e))
                     (takeWhile (\<lambda>e. fst (applied env args e) = 0) (postorder found)))
             @ snd (applied env args e)))"
proof -
  let ?fn = "\<lambda>filename statptr.
                ApplyParsedPerms (sys env) filename statptr (ParsePermArgs env args)"
  have v: "nftw (walk_fails env) ?fn found =
     (case dropWhile (\<lambda>e. fst (?fn (fst e) (snd e)) = 0) (postorder found) of
        [] \<Rightarrow> (0, concat (map (\<lambda>e. snd (?fn (fst e) (snd e))) (postorder found)))
      | e # rest \<Rightarrow>
          (fst (?fn (fst e) (snd e)),
           concat (map (\<lambda>e. snd (?fn (fst e) (snd e)))
                     (takeWhile (\<lambda>e. fst (?fn (fst e) (snd e)) = 0) (postorder found)))
             @ snd (?fn (fst e) (snd e))))"
    unfolding nftw_visit(1) using assms(4) by (rule visit_first_failure)
  show ?thesis
  proof (cases "dropWhile (\<lambda>e. fst (applied env args e) = 0) (postorder found)")
    case Nil
    then have "dropWhile (\<lambda>e. fst (?fn (fst e) (snd e)) = 0) (postorder found) = []"
      by (simp add: applied_def del: dropWhile_eq_Nil_conv)
    with v have "nftw (walk_fails env) ?fn found =
        (0, concat (map (\<lambda>e. snd (?fn (fst e) (snd e))) (postorder found)))"
      by (simp del: dropWhile_eq_Nil_conv)
    with Nil show ?thesis
      unfolding SetMetadataFn_recursive[OF assms(1,2,3)]
      by (simp add: applied_def del: dropWhile_eq_Nil_conv)
  next
    case (Cons e rest)
    then have "\<not> fst (applied env args e) = 0"
      by (rule dropWhile_head)
    moreover have "0 \<le> fst (applied env args e)"
      unfolding applied_def by (rule ApplyParsedPerms_nonneg)
    ultimately have pos: "0 < fst (applied env args e)" by simp
    from Cons
    have "dropWhile (\<lambda>e. fst (?fn (fst e) (snd e)) = 0) (postorder found) = e # rest"
      by (simp add: applied_def)
    with v have "nftw (walk_fails env) ?fn found =
        (fst (?fn (fst e) (snd e)),
           concat (map (\<lambda>e. snd (?fn (fst e) (snd e)))
                     (takeWhile (\<lambda>e. fst (?fn (fst e) (snd e)) = 0) (postorder found)))
             @ snd (?fn (fst e) (snd e)))"
      by simp
    with Cons pos show ?thesis
      unfolding SetMetadataFn_recursive[OF assms(1,2,3)] by (simp add: applied_def)
  qed
qed

lemma snd_apply_attr_if:
  "snd (if b then apply_attr k tol c s else s) = snd s @ (if b then [c] else [])"
  by (simp add: apply_attr_def split: option.splits)

lemma snd_apply_caps_if:
  "snd (if b then (if z then apply_attr k tol1 c1 s else apply_attr k tol2 c2 s) else s)
     = snd s @ (if b then (if z then [c1] else [c2]) else [])"
  by (simp add: apply_attr_def split: option.splits)

lemma ApplyParsedPerms_calls:
  "snd (ApplyParsedPerms k f t p) = attribute_applications p (f, t)"
proof (cases "t = S_IFLNK")
  case True
  then show ?thesis
    by (simp add: ApplyParsedPerms_def attribute_applications_def Let_def S_ISLNK_def
          snd_apply_attr_if)
next
  case False
  then show ?thesis
    by (simp add: ApplyParsedPerms_def attribute_applications_def Let_def S_ISLNK_def
          S_ISDIR_def S_ISREG_def snd_apply_attr_if snd_apply_caps_if uid_t_def gid_t_def)
qed

lemma ApplyParsedPerms_spec:
  "ApplyParsedPerms k f t p
     = (int (length (failed_applications k p (f, t))), attribute_applications p (f, t))"
  using ApplyParsedPerms_counts[of k f t p] ApplyParsedPerms_calls[of k f t p]
  by (simp add: counts_failures_def failed_applications_def prod_eq_iff)

lemma applied_spec:
  "applied env args e
     = (int (length (failed_applications (sys env) (ParsePermArgs env args) e)),
        attribute_applications (ParsePermArgs env args) e)"
  by (simp add: applied_def ApplyParsedPerms_spec)

lemma nftw_count:
  assumes "\<forall>e \<in> set (postorder found). \<not> w (fst e)"
  shows "fst (nftw w (\<lambda>filename statptr. ApplyParsedPerms k filename statptr p) found)
     = (case dropWhile (\<lambda>e. failed_applications k p e = []) (postorder found) of
          [] \<Rightarrow> 0
        | e # rest \<Rightarrow> int (length (failed_applications k p e)))"
proof -
  let ?fn = "\<lambda>filename statptr. ApplyParsedPerms k filename statptr p"
  have "fst (nftw w ?fn found) =
     fst (case dropWhile (\<lambda>e. fst (?fn (fst e) (snd e)) = 0) (postorder found) of
        [] \<Rightarrow> (0, concat (map (\<lambda>e. snd (?fn (fst e) (snd e))) (postorder found)))
      | e # rest \<Rightarrow>
          (fst (?fn (fst e) (snd e)),
           concat (map (\<lambda>e. snd (?fn (fst e) (snd e)))
                     (takeWhile (\<lambda>e. fst (?fn (fst e) (snd e)) = 0) (postorder found)))
             @ snd (?fn (fst e) (snd e))))"
    unfolding nftw_visit(1) using assms by (simp only: visit_first_failure)
  then show ?thesis
    unfolding ApplyParsedPerms_spec fst_conv snd_conv of_nat_eq_0_iff length_0_conv
    by (simp split: list.splits del: dropWhile_eq_Nil_conv)
qed

lemma SetMetadataFn_recursive_spec:
  assumes "length argv mod 2 = 1" and "ReadArgs argv 0 (length argv) = Some args"
    and "fs_tree env (c_str (args ! 0)) = Some found"
    and "\<forall>e \<in> set (postorder found). \<not> walk_fails env (fst e)"
  shows "SetMetadataFn env ''set_metadata_recursive'' argv =
     (case dropWhile (\<lambda>e. failed_applications (sys env) (ParsePermArgs env args) e = [])
             (postorder found) of
        [] \<Rightarrow> (Return (StringValue ''''),
               concat (map (attribute_applications (ParsePermArgs env args))
                         (postorder found)))
      | e # rest \<Rightarrow>
          (ErrorAbort kSetMetadataFailure,
           concat (map (attribute_applications (ParsePermArgs env args))
                     (takeWhile
                        (\<lambda>e. failed_applications (sys env) (ParsePermArgs env args) e = [])
                        (postorder found)))
             @ attribute_applications (ParsePermArgs env args) e))"
  using SetMetadataFn_recursive_walk [OF assms]
  unfolding applied_spec fst_conv snd_conv of_nat_eq_0_iff length_0_conv
  by simp

text \<open>
  Claim C1, as amended. \<open>set_metadata_recursive\<close> visits the entries of the tree in the
  order of a depth-first walk, the entries of a directory before the directory, and stops
  after the first entry for which an attribute application fails. At an entry the
  attribute applications of the specification are all made, in their order: the label, and
  unless the entry is a symbolic link the uid, the gid, the mode, the directory-only mode
  on a directory, the file-only mode on a regular file and the capabilities on a regular
  file; a failed one does not block the others, and the count of the entry is the number of
  its applications that failed. The calls of the operation are those of the entries before
  the first entry with a failure, which all succeeded, followed by those of that entry; no
  later entry is attempted, and the count that the walk hands to the operation is the count
  of that entry alone. The call aborts with \<open>kSetMetadataFailure\<close> exactly when some entry
  has a failed application; when none has, every entry received its attributes and the
  call returns the empty string. (The walk itself is assumed not to fail.)
\<close>

theorem set_metadata_recursive_stops_at_first_failure:
  assumes "length argv mod 2 = 1" and "ReadArgs argv 0 (length argv) = Some args"
    and "fs_tree env (c_str (args ! 0)) = Some found"
    and "\<forall>e \<in> set (postorder found). \<not> walk_fails env (fst e)"
    and "parsed = ParsePermArgs env args"
  shows "SetMetadataFn env ''set_metadata_recursive'' argv =
     (case dropWhile (\<lambda>e. failed_applications (sys env) parsed e = []) (postorder found) of
        [] \<Rightarrow> (Return (StringValue ''''),
               concat (map (attribute_applications parsed) (postorder found)))
      | e # rest \<Rightarrow>
          (ErrorAbort kSetMetadataFailure,
           concat (map (attribute_applications parsed)
                     (takeWhile (\<lambda>e. failed_applications (sys env) parsed e = [])
                        (postorder found)))
             @ attribute_applications parsed e))
   \<and> (\<forall>filename statptr.
           ApplyParsedPerms (sys env) filename statptr parsed
             = (int (length (failed_applications (sys env) parsed (filename, statptr))),
                attribute_applications parsed (filename, statptr)))
   \<and> fst (nftw (walk_fails env)
                (\<lambda>filename statptr. ApplyParsedPerms (sys env) filename statptr parsed) found)
           = (case dropWhile (\<lambda>e. failed_applications (sys env) parsed e = [])
                     (postorder found) of
                [] \<Rightarrow> 0
              | e # rest \<Rightarrow> int (length (failed_applications (sys env) parsed e)))
   \<and> (fst (SetMetadataFn env ''set_metadata_recursive'' argv)
             = ErrorAbort kSetMetadataFailure
           \<longleftrightarrow> (\<exists>e \<in> set (postorder found). failed_applications (sys env) parsed e \<noteq> []))
   \<and> (fst (SetMetadataFn env ''set_metadata_recursive'' argv) = Return (StringValue '''')
           \<longleftrightarrow> (\<forall>e \<in> set (postorder found). failed_applications (sys env) parsed e = []))"
proof (intro conjI)
  note walk = SetMetadataFn_recursive_spec [OF assms(1-4), folded assms(5)]
  show "SetMetadataFn env ''set_metadata_recursive'' argv =
     (case dropWhile (\<lambda>e. failed_applications (sys env) parsed e = []) (postorder found) of
        [] \<Rightarrow> (Return (StringValue ''''),
               concat (map (attribute_applications parsed) (postorder found)))
      | e # rest \<Rightarrow>
          (ErrorAbort kSetMetadataFailure,
           concat (map (attribute_applications parsed)
                     (takeWhile (\<lambda>e. failed_applications (sys env) parsed e = [])
                        (postorder found)))
             @ attribute_applications parsed e))"
    by (rule walk)
  show "\<forall>filename statptr.
           ApplyParsedPerms (sys env) filename statptr parsed
             = (int (length (failed_applications (sys env) parsed (filename, statptr))),
                attribute_applications parsed (filename, statptr))"
    by (simp add: ApplyParsedPerms_spec)
  show "fst (nftw (walk_fails env)
                (\<lambda>filename statptr. ApplyParsedPerms (sys env) filename statptr parsed) found)
           = (case dropWhile (\<lambda>e. failed_applications (sys env) parsed e = [])
                     (postorder found) of
                [] \<Rightarrow> 0
              | e # rest \<Rightarrow> int (length (failed_applications (sys env) parsed e)))"
    using assms(4) by (rule nftw_count)
  have split: "(dropWhile (\<lambda>e. failed_applications (sys env) parsed e = []) (postorder found)
                  = [])
                 = (\<forall>e \<in> set (postorder found). failed_applications (sys env) parsed e = [])"
    by (rule dropWhile_eq_Nil_conv)
  have result: "fst (SetMetadataFn env ''set_metadata_recursive'' argv) =
     (if \<forall>e \<in> set (postorder found). failed_applications (sys env) parsed e = []
      then Return (StringValue '''') else ErrorAbort kSetMetadataFailure)"
  proof (cases "dropWhile (\<lambda>e. failed_applications (sys env) parsed e = [])
                  (postorder found)")
    case Nil
    with split
    have "\<forall>e \<in> set (postorder found). failed_applications (sys env) parsed e = []"
      by simp
    moreover from Nil walk
    have "fst (SetMetadataFn env ''set_metadata_recursive'' argv) = Return (StringValue '''')"
      by (simp del: dropWhile_eq_Nil_conv)
    ultimately show ?thesis by simp
  next
    case (Cons e rest)
    with split
    have "\<not> (\<forall>e \<in> set (postorder found). failed_applications (sys env) parsed e = [])"
      by simp
    moreover from Cons walk
    have "fst (SetMetadataFn env ''set_metadata_recursive'' argv)
            = ErrorAbort kSetMetadataFailure"
      by simp
    ultimately show ?thesis by simp
  qed
  show "fst (SetMetadataFn env ''set_metadata_recursive'' argv)
             = ErrorAbort kSetMetadataFailure
           \<longleftrightarrow> (\<exists>e \<in> set (postorder found). failed_applications (sys env) parsed e \<noteq> [])"
    unfolding result by simp
  show "fst (SetMetadataFn env ''set_metadata_recursive'' argv) = Return (StringValue '''')
           \<longleftrightarrow> (\<forall>e \<in> set (postorder found). failed_applications (sys env) parsed e = [])"
    unfolding result by simp
qed

theorem set_metadata_recursive_stops_at_first_failure_witness:
  "length meta_argv_walk_example mod 2 = 1
   \<and> ReadArgs meta_argv_walk_example 0 (length meta_argv_walk_example)
        = Some meta_args_walk_example
   \<and> fs_tree meta_env_b_fails (c_str (meta_args_walk_example ! 0)) = Some tree_walk_example
   \<and> list_all (\<lambda>e. \<not> walk_fails meta_env_b_fails (fst e)) (postorder tree_walk_example)
   \<and> ParsePermArgs meta_env_b_fails meta_args_walk_example
        = \<lparr>has_uid = True, uid = 0, has_gid = True, gid = 1000, has_mode = False, mode = 0,
           has_fmode = True, fmode = 420, has_dmode = True, dmode = 493,
           has_selabel = True, selabel = ''u:object_r:system_file:s0'',
           has_capabilities = True, capabilities = 0\<rparr>
   \<and> postorder tree_walk_example
        = [(''/t/s/a'', S_IFREG), (''/t/s'', S_IFDIR), (''/t/l'', S_IFLNK),
           (''/t/b'', S_IFREG), (''/t/c'', S_IFREG), (''/t'', S_IFDIR)]
   \<and> SetMetadataFn meta_env_b_fails ''set_metadata_recursive'' meta_argv_walk_example
        = (ErrorAbort kSetMetadataFailure,
           [Lsetfilecon ''/t/s/a'' ''u:object_r:system_file:s0'',
            Chown ''/t/s/a'' 0 4294967295, Chown ''/t/s/a'' 4294967295 1000,
            Chmod ''/t/s/a'' 420, Removexattr_caps ''/t/s/a'',
            Lsetfilecon ''/t/s'' ''u:object_r:system_file:s0'',
            Chown ''/t/s'' 0 4294967295, Chown ''/t/s'' 4294967295 1000,
            Chmod ''/t/s'' 493,
            Lsetfilecon ''/t/l'' ''u:object_r:system_file:s0'',
            Lsetfilecon ''/t/b'' ''u:object_r:system_file:s0'',
            Chown ''/t/b'' 0 4294967295, Chown ''/t/b'' 4294967295 1000,
            Chmod ''/t/b'' 420, Removexattr_caps ''/t/b''])
   \<and> fst (nftw (walk_fails meta_env_b_fails)
             (\<lambda>filename statptr.
                ApplyParsedPerms (sys meta_env_b_fails) filename statptr
                  (ParsePermArgs meta_env_b_fails meta_args_walk_example))
             tree_walk_example) = 1
   \<and> sys meta_env_b_fails (Chown ''/t/b'' 4294967295 1000) = Some EPERM
   \<and> sys meta_env_b_fails (Removexattr_caps ''/t/s/a'') = Some ENODATA"
proof -
  let ?parsed = "\<lparr>has_uid = True, uid = 0, has_gid = True, gid = 1000, has_mode = False,
           mode = 0, has_fmode = True, fmode = 420, has_dmode = True, dmode = 493,
           has_selabel = True, selabel = ''u:object_r:system_file:s0'',
           has_capabilities = True, capabilities = 0\<rparr>"
  have h1: "length meta_argv_walk_example mod 2 = 1"
    by (simp add: meta_argv_walk_example_def meta_args_walk_example_def)
  have h2: "ReadArgs meta_argv_walk_example 0 (length meta_argv_walk_example)
              = Some meta_args_walk_example"
    by code_simp
  have h3: "fs_tree meta_env_b_fails (c_str (meta_args_walk_example ! 0))
              = Some tree_walk_example"
    by (simp add: meta_env_b_fails_def meta_args_walk_example_def c_str_def)
  have h4: "\<forall>e \<in> set (postorder tree_walk_example). \<not> walk_fails meta_env_b_fails (fst e)"
    by (simp add: meta_env_b_fails_def)
  have h5: "ParsePermArgs meta_env_b_fails meta_args_walk_example = ?parsed"
    by (simp add: ParsePermArgs_def meta_args_walk_example_def parse_pair_def no_perms_def
          meta_env_b_fails_def scan_id_example_def scan_mode_example_def
          scan_integer_example_def uid_t_def gid_t_def mode_t_def c_str_def)
  have p: "postorder tree_walk_example
        = [(''/t/s/a'', S_IFREG), (''/t/s'', S_IFDIR), (''/t/l'', S_IFLNK),
           (''/t/b'', S_IFREG), (''/t/c'', S_IFREG), (''/t'', S_IFDIR)]"
    by (simp add: tree_walk_example_def)
  have k: "sys meta_env_b_fails (Chown ''/t/b'' 4294967295 1000) = Some EPERM"
    "sys meta_env_b_fails (Removexattr_caps ''/t/s/a'') = Some ENODATA"
    by (simp_all add: meta_env_b_fails_def kernel_chgrp_b_fails_def)
  have walked: "(case dropWhile (\<lambda>e. failed_applications (sys meta_env_b_fails) ?parsed e = [])
                       (postorder tree_walk_example) of
        [] \<Rightarrow> (Return (StringValue ''''),
               concat (map (attribute_applications ?parsed) (postorder tree_walk_example)))
      | e # rest \<Rightarrow>
          (ErrorAbort kSetMetadataFailure,
           concat (map (attribute_applications ?parsed)
                     (takeWhile (\<lambda>e. failed_applications (sys meta_env_b_fails) ?parsed e = [])
                        (postorder tree_walk_example)))
             @ attribute_applications ?parsed e))
      = (ErrorAbort kSetMetadataFailure,
           [Lsetfilecon ''/t/s/a'' ''u:object_r:system_file:s0'',
            Chown ''/t/s/a'' 0 4294967295, Chown ''/t/s/a'' 4294967295 1000,
            Chmod ''/t/s/a'' 420, Removexattr_caps ''/t/s/a'',
            Lsetfilecon ''/t/s'' ''u:object_r:system_file:s0'',
            Chown ''/t/s'' 0 4294967295, Chown ''/t/s'' 4294967295 1000,
            Chmod ''/t/s'' 493,
            Lsetfilecon ''/t/l'' ''u:object_r:system_file:s0'',
            Lsetfilecon ''/t/b'' ''u:object_r:system_file:s0'',
            Chown ''/t/b'' 0 4294967295, Chown ''/t/b'' 4294967295 1000,
            Chmod ''/t/b'' 420, Removexattr_caps ''/t/b''])"
    by code_simp
  have count: "(case dropWhile (\<lambda>e. failed_applications (sys meta_env_b_fails) ?parsed e = [])
                       (postorder tree_walk_example) of
                [] \<Rightarrow> 0
              | e # rest \<Rightarrow>
                  int (length (failed_applications (sys meta_env_b_fails) ?parsed e))) = 1"
    by code_simp
  note walk = set_metadata_recursive_stops_at_first_failure [OF h1 h2 h3 h4 h5 [symmetric]]
  from walk have r: "SetMetadataFn meta_env_b_fails ''set_metadata_recursive''
                       meta_argv_walk_example
        = (ErrorAbort kSetMetadataFailure,
           [Lsetfilecon ''/t/s/a'' ''u:object_r:system_file:s0'',
            Chown ''/t/s/a'' 0 4294967295, Chown ''/t/s/a'' 4294967295 1000,
            Chmod ''/t/s/a'' 420, Removexattr_caps ''/t/s/a'',
            Lsetfilecon ''/t/s'' ''u:object_r:system_file:s0'',
            Chown ''/t/s'' 0 4294967295, Chown ''/t/s'' 4294967295 1000,
            Chmod ''/t/s'' 493,
            Lsetfilecon ''/t/l'' ''u:object_r:system_file:s0'',
            Lsetfilecon ''/t/b'' ''u:object_r:system_file:s0'',
            Chown ''/t/b'' 0 4294967295, Chown ''/t/b'' 4294967295 1000,
            Chmod ''/t/b'' 420, Removexattr_caps ''/t/b''])"
    unfolding walked by (rule conjunct1)
  from walk [THEN conjunct2, THEN conjunct2, THEN conjunct1]
  have c: "fst (nftw (walk_fails meta_env_b_fails)
             (\<lambda>filename statptr.
                ApplyParsedPerms (sys meta_env_b_fails) filename statptr
                  (ParsePermArgs meta_env_b_fails meta_args_walk_example))
             tree_walk_example) = 1"
    unfolding count h5 .
  from h4 have h4': "list_all (\<lambda>e. \<not> walk_fails meta_env_b_fails (fst e))
                       (postorder tree_walk_example)"
    by (simp only: list_all_iff)
  from h1 h2 h3 h4' h5 p r c k show ?thesis by (intro conjI)
qed

text \<open>
  Claim C1 as stated fails. In a directory with the files \<open>a\<close> and \<open>b\<close>, where only the
  change of owner of \<open>a\<close> is refused, the walk ends after \<open>a\<close>: neither \<open>b\<close> nor the
  directory is attempted, although every call on them would succeed.
\<close>

theorem set_metadata_recursive_early_stop_counterexample:
  "postorder tree_example = [(''/d/a'', S_IFREG), (''/d/b'', S_IFREG), (''/d'', S_IFDIR)]
   \<and> sys meta_env_a_fails (Chown ''/d/b'' 0 4294967295) = None
   \<and> sys meta_env_a_fails (Chmod ''/d/b'' 420) = None
   \<and> sys meta_env_a_fails (Chown ''/d'' 0 4294967295) = None
   \<and> sys meta_env_a_fails (Chmod ''/d'' 420) = None
   \<and> SetMetadataFn meta_env_a_fails ''set_metadata_recursive'' meta_argv_example
        = (ErrorAbort kSetMetadataFailure,
           [Chown ''/d/a'' 0 4294967295, Chmod ''/d/a'' 420])
   \<and> Chown ''/d/b'' 0 4294967295
        \<notin> set (snd (SetMetadataFn meta_env_a_fails ''set_metadata_recursive''
                       meta_argv_example))
   \<and> Chmod ''/d/b'' 420
        \<notin> set (snd (SetMetadataFn meta_env_a_fails ''set_metadata_recursive''
                       meta_argv_example))"
proof -
  have r: "SetMetadataFn meta_env_a_fails ''set_metadata_recursive'' meta_argv_example
        = (ErrorAbort kSetMetadataFailure,
           [Chown ''/d/a'' 0 4294967295, Chmod ''/d/a'' 420])"
    by code_simp
  have p: "postorder tree_example
             = [(''/d/a'', S_IFREG), (''/d/b'', S_IFREG), (''/d'', S_IFDIR)]"
    by (simp add: tree_example_def)
  have k: "sys meta_env_a_fails (Chown ''/d/b'' 0 4294967295) = None"
    "sys meta_env_a_fails (Chmod ''/d/b'' 420) = None"
    "sys meta_env_a_fails (Chown ''/d'' 0 4294967295) = None"
    "sys meta_env_a_fails (Chmod ''/d'' 420) = None"
    by (simp_all add: meta_env_a_fails_def kernel_chown_a_fails_def gid_t_def)
  show ?thesis unfolding r using p k by simp
qed

text \<open>
  Claim C9. A call of \<open>set_metadata\<close> or \<open>set_metadata_recursive\<close> that does not abort
  returns the empty string, the value that other operations return for a soft failure,
  and not the truthy \<open>t\<close>.
\<close>

theorem set_metadata_returns_empty_string:
  assumes "\<forall>k. fst (SetMetadataFn env name argv) \<noteq> ErrorAbort k"
  shows "fst (SetMetadataFn env name argv) = Return (StringValue '''')
       \<and> fst (SetMetadataFn env name argv) \<noteq> Return (StringValue ''t'')"
  using assms
  by (auto simp: SetMetadataFn_def Let_def StringValue_def split: option.splits if_splits)

theorem set_metadata_returns_empty_string_witness:
  "(\<forall>k. fst (SetMetadataFn meta_env_ok ''set_metadata'' meta_argv_example) \<noteq> ErrorAbort k)
   \<and> fst (SetMetadataFn meta_env_ok ''set_metadata'' meta_argv_example)
        = Return (StringValue '''')
   \<and> (\<forall>k. fst (SetMetadataFn meta_env_ok ''set_metadata_recursive'' meta_argv_example)
          \<noteq> ErrorAbort k)
   \<and> fst (SetMetadataFn meta_env_ok ''set_metadata_recursive'' meta_argv_example)
        = Return (StringValue '''')"
proof -
  have "fst (SetMetadataFn meta_env_ok ''set_metadata'' meta_argv_example)
          = Return (StringValue '''')"
    by code_simp
  then have h1: "\<forall>k. fst (SetMetadataFn meta_env_ok ''set_metadata'' meta_argv_example)
          \<noteq> ErrorAbort k"
    by simp
  have "fst (SetMetadataFn meta_env_ok ''set_metadata_recursive'' meta_argv_example)
          = Return (StringValue '''')"
    by code_simp
  then have h2: "\<forall>k. fst (SetMetadataFn meta_env_ok ''set_metadata_recursive''
                            meta_argv_example) \<noteq> ErrorAbort k"
    by simp
  from set_metadata_returns_empty_string [OF h1] set_metadata_returns_empty_string [OF h2]
       h1 h2
  show ?thesis by simp
qed

section \<open>Properties of provisioning, patching and extraction\<close>

lemma ReadArgs_all_strings:
  "ReadArgs (map (\<lambda>s. Some (StringValue s)) ss) 0 (length (map (\<lambda>s. Some (StringValue s)) ss)) = Some ss"
  by (induction ss) (auto simp: ReadArgs_def Evaluate_def StringValue_def)

lemma ReadArgs_strings5:
  "ReadArgs [Some (StringValue a), Some (StringValue b), Some (StringValue c),
             Some (StringValue d), Some (StringValue e)] 0
      (length [Some (StringValue a), Some (StringValue b), Some (StringValue c),
             Some (StringValue d), Some (StringValue e)]) = Some [a, b, c, d, e]"
  using ReadArgs_all_strings[of "[a, b, c, d, e]"] by simp

lemma sdiv_nonneg: "0 \<le> a \<Longrightarrow> 0 < b \<Longrightarrow> a sdiv b = a div (b::int)"
  by (simp add: signed_divide_int_def sgn_if)













lemma StringValue_four_forms [simp]:
  "four_forms (Return (StringValue ''t''))" "four_forms (Return (StringValue ''''))"
  "four_forms (ErrorAbort k)" "four_forms (Return (Value VAL_BLOB b))"
  by (simp_all add: four_forms_def)






















text \<open>
  Claim C10. For a non-empty mount point that the rescanned mount table holds, \<open>unmount\<close>
  returns the mount point string whether the unmount of the volume succeeds or fails; a
  failure only sends the diagnostic. The null result is returned exactly when the mount
  point is not in the table.
\<close>

theorem unmount_returns_mount_point:
  assumes "argv = [Some (StringValue mp)]" and "mp \<noteq> ''''"
  shows "(\<forall>vol. find_mounted_volume_by_mount_point env (c_str mp) = Some vol \<longrightarrow>
            fst (UnmountFn env name argv) = Return (StringValue mp)
            \<and> (\<forall>e. unmount_mounted_volume env vol = Some e \<longrightarrow>
                  snd (UnmountFn env name argv) =
                    [Unmount_mounted_volume (mount_point vol),
                     UiPrintf (Failed_to_unmount (c_str mp) e)]))
       \<and> (find_mounted_volume_by_mount_point env (c_str mp) = None \<longrightarrow>
            UnmountFn env name argv =
              (Nullptr, [UiPrintf (Failed_to_unmount_No_such_volume (c_str mp))]))
       \<and> (fst (UnmountFn env name argv) = Nullptr
            \<longleftrightarrow> find_mounted_volume_by_mount_point env (c_str mp) = None)"
  using assms ReadArgs_strings1[of mp]
  by (auto simp: UnmountFn_def Let_def split: option.splits)

theorem unmount_returns_mount_point_witness:
  "find_mounted_volume_by_mount_point prov_env_busy (c_str ''/system'') = Some system_volume
   \<and> unmount_mounted_volume prov_env_busy system_volume = Some EIO
   \<and> UnmountFn prov_env_busy ''unmount'' [Some (StringValue ''/system'')]
       = (Return (StringValue ''/system''),
          [Unmount_mounted_volume ''/system'', UiPrintf (Failed_to_unmount ''/system'' EIO)])
   \<and> find_mounted_volume_by_mount_point prov_env_busy (c_str ''/vendor'') = None
   \<and> UnmountFn prov_env_busy ''unmount'' [Some (StringValue ''/vendor'')]
       = (Nullptr, [UiPrintf (Failed_to_unmount_No_such_volume ''/vendor'')])"
proof -
  have f: "find_mounted_volume_by_mount_point prov_env_busy (c_str ''/system'') = Some system_volume"
    by code_simp
  have u: "unmount_mounted_volume prov_env_busy system_volume = Some EIO"
    by (simp add: prov_env_busy_def)
  have n: "find_mounted_volume_by_mount_point prov_env_busy (c_str ''/vendor'') = None"
    by code_simp
  have c: "c_str ''/system'' = ''/system''" "c_str ''/vendor'' = ''/vendor''"
    by (simp_all add: c_str_def)
  have m: "mount_point system_volume = ''/system''"
    by (simp add: system_volume_def)
  from unmount_returns_mount_point
         [of "[Some (StringValue ''/system'')]" "''/system''" prov_env_busy "''unmount''"]
       unmount_returns_mount_point
         [of "[Some (StringValue ''/vendor'')]" "''/vendor''" prov_env_busy "''unmount''"]
       f u n c m
  show ?thesis by (simp add: prod_eq_iff)
qed

text \<open>
  Claim C5, as amended. For \<open>format\<close> with non-empty arguments and a size that parses:
  with \<open>ext4\<close>, size 0 passes no block count to the filesystem maker (whole partition) and
  a positive size passes the block count size/4096; with \<open>f2fs\<close>, a negative size is
  rejected (empty result, no tool is run), a size from 0 to 511 passes no sector count
  (whole partition) and a size of 512 or more passes the sector count size/512; any other
  file system type gives the null result and no tool is run. (What \<open>ext4\<close> does with a
  negative size is left out.)
\<close>

theorem format_tool_arguments:
  assumes "argv = [Some (StringValue fs_type), Some (StringValue partition_type),
                   Some (StringValue location), Some (StringValue fs_size),
                   Some (StringValue mount_pt)]"
    and "partition_type \<noteq> ''''" and "location \<noteq> ''''" and "mount_pt \<noteq> ''''"
    and "ParseInt env (c_str fs_size) = Some size64"
  shows "(fs_type = ''ext4'' \<and> 0 \<le> size64 \<longrightarrow>
            (\<exists>rest. snd (FormatFn env name argv) =
               Exec ''/sbin/mke2fs_static''
                 ([''/sbin/mke2fs_static'', ''-t'', ''ext4'', ''-b'', ''4096'', c_str location]
                  @ (if size64 = 0 then [] else [to_string (size64 div 4096)])) # rest))
       \<and> (fs_type = ''f2fs'' \<and> size64 < 0 \<longrightarrow>
            FormatFn env name argv = (Return (StringValue ''''), []))
       \<and> (fs_type = ''f2fs'' \<and> 0 \<le> size64 \<longrightarrow>
            (\<exists>rest. snd (FormatFn env name argv) =
               Exec ''/sbin/mkfs.f2fs''
                 ([''mkfs.f2fs'', ''-d1'', ''-f'', ''-O'', ''encrypt'', ''-O'', ''quota'',
                   ''-O'', ''verity'', ''-w'', ''512'', c_str location]
                  @ (if size64 < 512 then [] else [to_string (size64 div 512)])) # rest))
       \<and> (fs_type \<noteq> '''' \<and> fs_type \<noteq> ''ext4'' \<and> fs_type \<noteq> ''f2fs'' \<longrightarrow>
            FormatFn env name argv = (Nullptr, []))"
proof -
  have r: "ReadArgs argv 0 (length argv) = Some [fs_type, partition_type, location, fs_size, mount_pt]"
    unfolding assms(1) by (rule ReadArgs_strings5)
  have len: "length argv = 5" by (simp add: assms(1))
  show ?thesis
    using r len assms(2-5)
    by (auto simp: FormatFn_def Let_def exec_cmd_def sdiv_nonneg)
qed

theorem format_tool_arguments_witness:
  "ParseInt prov_env_ok (c_str ''0'') = Some 0
   \<and> ParseInt prov_env_ok (c_str ''8192'') = Some 8192
   \<and> ParseInt prov_env_ok (c_str ''-4096'') = Some (- 4096)
   \<and> (\<exists>rest. snd (FormatFn prov_env_ok ''format'' (format_argv ''ext4'' ''0'')) =
         Exec ''/sbin/mke2fs_static''
           [''/sbin/mke2fs_static'', ''-t'', ''ext4'', ''-b'', ''4096'', ''/dev/block/userdata'']
         # rest)
   \<and> (\<exists>rest. snd (FormatFn prov_env_ok ''format'' (format_argv ''ext4'' ''8192'')) =
         Exec ''/sbin/mke2fs_static''
           [''/sbin/mke2fs_static'', ''-t'', ''ext4'', ''-b'', ''4096'', ''/dev/block/userdata'',
            ''2'']
         # rest)
   \<and> (\<exists>rest. snd (FormatFn prov_env_ok ''format'' (format_argv ''f2fs'' ''8192'')) =
         Exec ''/sbin/mkfs.f2fs''
           [''mkfs.f2fs'', ''-d1'', ''-f'', ''-O'', ''encrypt'', ''-O'', ''quota'',
            ''-O'', ''verity'', ''-w'', ''512'', ''/dev/block/userdata'', ''16'']
         # rest)
   \<and> FormatFn prov_env_ok ''format'' (format_argv ''f2fs'' ''-4096'')
       = (Return (StringValue ''''), [])
   \<and> FormatFn prov_env_ok ''format'' (format_argv ''vfat'' ''0'') = (Nullptr, [])"
proof -
  have p: "ParseInt prov_env_ok (c_str ''0'') = Some 0"
    "ParseInt prov_env_ok (c_str ''8192'') = Some 8192"
    "ParseInt prov_env_ok (c_str ''-4096'') = Some (- 4096)"
    by (simp_all add: prov_env_ok_def parse_int_example_def c_str_def)
  have c: "c_str ''/dev/block/userdata'' = ''/dev/block/userdata''"
    by (simp add: c_str_def)
  have t: "to_string (8192 div 4096) = ''2''" "to_string (8192 div 512) = ''16''"
    by code_simp+
  from format_tool_arguments
         [of "format_argv ''ext4'' ''0''" "''ext4''" "''EMMC''" "''/dev/block/userdata''" "''0''"
             "''/data''" prov_env_ok 0 "''format''"]
       format_tool_arguments
         [of "format_argv ''ext4'' ''8192''" "''ext4''" "''EMMC''" "''/dev/block/userdata''"
             "''8192''" "''/data''" prov_env_ok 8192 "''format''"]
       format_tool_arguments
         [of "format_argv ''f2fs'' ''8192''" "''f2fs''" "''EMMC''" "''/dev/block/userdata''"
             "''8192''" "''/data''" prov_env_ok 8192 "''format''"]
       format_tool_arguments
         [of "format_argv ''f2fs'' ''-4096''" "''f2fs''" "''EMMC''" "''/dev/block/userdata''"
             "''-4096''" "''/data''" prov_env_ok "- 4096" "''format''"]
       format_tool_arguments
         [of "format_argv ''vfat'' ''0''" "''vfat''" "''EMMC''" "''/dev/block/userdata''"
             "''0''" "''/data''" prov_env_ok 0 "''format''"]
       p c t
  show ?thesis by (simp add: format_argv_def)
qed

text \<open>
  Claim C5 as stated fails for \<open>f2fs\<close> with the positive size 100: the sector count
  100/512 = 0 is computed, and the maker is run without any sector count.
\<close>

theorem format_f2fs_small_size_counterexample:
  "ParseInt prov_env_ok (c_str ''100'') = Some 100
   \<and> to_string (100 sdiv 512) = ''0''
   \<and> FormatFn prov_env_ok ''format'' (format_argv ''f2fs'' ''100'')
       = (Return (StringValue ''/dev/block/userdata''),
          [Exec ''/sbin/mkfs.f2fs''
             [''mkfs.f2fs'', ''-d1'', ''-f'', ''-O'', ''encrypt'', ''-O'', ''quota'',
              ''-O'', ''verity'', ''-w'', ''512'', ''/dev/block/userdata''],
           Exec ''/sbin/sload.f2fs''
             [''/sbin/sload.f2fs'', ''-t'', ''/data'', ''/dev/block/userdata'']])"
  by code_simp




text \<open>
  Claim C8. With one argument, \<open>package_extract_file\<close> aborts with
  \<open>kPackageExtractFileFailure\<close> when the entry is not in the package or the extraction to
  memory fails, and returns a blob with the extracted contents otherwise. With two
  arguments it returns \<open>t\<close> or the empty string, and \<open>t\<close> exactly when the entry is
  found, the destination opens, and extraction, fsync and close all succeed.
\<close>

theorem package_extract_file_results:
  "(FindEntry env (c_str zip_path) = None \<longrightarrow>
      fst (PackageExtractFileFn env name [Some (StringValue zip_path)])
        = ErrorAbort kPackageExtractFileFailure)
   \<and> (\<forall>entry. FindEntry env (c_str zip_path) = Some entry \<longrightarrow>
        (fst (ExtractToMemory env entry (uncompressed_length entry)) \<noteq> 0 \<longrightarrow>
           fst (PackageExtractFileFn env name [Some (StringValue zip_path)])
             = ErrorAbort kPackageExtractFileFailure)
        \<and> (fst (ExtractToMemory env entry (uncompressed_length entry)) = 0 \<longrightarrow>
           fst (PackageExtractFileFn env name [Some (StringValue zip_path)])
             = Return (Value VAL_BLOB
                 (snd (ExtractToMemory env entry (uncompressed_length entry))))))
   \<and> (fst (PackageExtractFileFn env name
              [Some (StringValue zip_path), Some (StringValue dest_path)])
          = Return (StringValue ''t'')
       \<or> fst (PackageExtractFileFn env name
              [Some (StringValue zip_path), Some (StringValue dest_path)])
          = Return (StringValue ''''))
   \<and> (fst (PackageExtractFileFn env name
              [Some (StringValue zip_path), Some (StringValue dest_path)])
          = Return (StringValue ''t'')
        \<longleftrightarrow> (\<exists>entry. FindEntry env (c_str zip_path) = Some entry
               \<and> ota_open env (c_str dest_path)
               \<and> ExtractEntryToFile env entry (c_str dest_path) = 0
               \<and> ota_fsync env (c_str dest_path) \<noteq> - 1
               \<and> ota_close env (c_str dest_path) \<noteq> - 1))"
proof (intro conjI allI impI)
  assume "FindEntry env (c_str zip_path) = None"
  then show "fst (PackageExtractFileFn env name [Some (StringValue zip_path)])
        = ErrorAbort kPackageExtractFileFailure"
    using ReadArgs_strings1[of zip_path] by (simp add: PackageExtractFileFn_def)
next
  fix entry
  assume "FindEntry env (c_str zip_path) = Some entry"
    and "fst (ExtractToMemory env entry (uncompressed_length entry)) \<noteq> 0"
  then show "fst (PackageExtractFileFn env name [Some (StringValue zip_path)])
        = ErrorAbort kPackageExtractFileFailure"
    using ReadArgs_strings1[of zip_path] by (simp add: PackageExtractFileFn_def Let_def)
next
  fix entry
  assume "FindEntry env (c_str zip_path) = Some entry"
    and "fst (ExtractToMemory env entry (uncompressed_length entry)) = 0"
  then show "fst (PackageExtractFileFn env name [Some (StringValue zip_path)])
             = Return (Value VAL_BLOB
                 (snd (ExtractToMemory env entry (uncompressed_length entry))))"
    using ReadArgs_strings1[of zip_path] by (simp add: PackageExtractFileFn_def Let_def)
next
  show "fst (PackageExtractFileFn env name
              [Some (StringValue zip_path), Some (StringValue dest_path)])
          = Return (StringValue ''t'')
       \<or> fst (PackageExtractFileFn env name
              [Some (StringValue zip_path), Some (StringValue dest_path)])
          = Return (StringValue '''')"
    using ReadArgs_strings2[of zip_path dest_path]
    by (simp add: PackageExtractFileFn_def Let_def split: option.splits)
next
  show "fst (PackageExtractFileFn env name
              [Some (StringValue zip_path), Some (StringValue dest_path)])
          = Return (StringValue ''t'')
        \<longleftrightarrow> (\<exists>entry. FindEntry env (c_str zip_path) = Some entry
               \<and> ota_open env (c_str dest_path)
               \<and> ExtractEntryToFile env entry (c_str dest_path) = 0
               \<and> ota_fsync env (c_str dest_path) \<noteq> - 1
               \<and> ota_close env (c_str dest_path) \<noteq> - 1)"
    using ReadArgs_strings2[of zip_path dest_path]
    by (auto simp: PackageExtractFileFn_def Let_def StringValue_def split: option.splits)
qed

theorem package_extract_file_results_witness:
  "FindEntry package_env_ok (c_str ''boot.img'') = Some \<lparr>uncompressed_length = 4\<rparr>
   \<and> fst (PackageExtractFileFn package_env_ok ''package_extract_file''
            [Some (StringValue ''boot.img'')])
       = Return (Value VAL_BLOB ''ANDR'')
   \<and> FindEntry package_env_ok (c_str ''recovery.img'') = None
   \<and> fst (PackageExtractFileFn package_env_ok ''package_extract_file''
            [Some (StringValue ''recovery.img'')])
       = ErrorAbort kPackageExtractFileFailure
   \<and> fst (PackageExtractFileFn package_env_ok ''package_extract_file''
            [Some (StringValue ''boot.img''), Some (StringValue ''/tmp/boot.img'')])
       = Return (StringValue ''t'')
   \<and> ota_fsync package_env_fsync_fails (c_str ''/tmp/boot.img'') = - 1
   \<and> fst (PackageExtractFileFn package_env_fsync_fails ''package_extract_file''
            [Some (StringValue ''boot.img''), Some (StringValue ''/tmp/boot.img'')])
       = Return (StringValue '''')
   \<and> fst (PackageExtractFileFn package_env_ok ''package_extract_file''
            [Some (StringValue ''recovery.img''), Some (StringValue ''/tmp/recovery.img'')])
       = Return (StringValue '''')"
proof -
  have c: "c_str ''boot.img'' = ''boot.img''" "c_str ''recovery.img'' = ''recovery.img''"
    "c_str ''/tmp/boot.img'' = ''/tmp/boot.img''"
    "c_str ''/tmp/recovery.img'' = ''/tmp/recovery.img''"
    by (simp_all add: c_str_def)
  have f: "FindEntry package_env_ok ''boot.img'' = Some \<lparr>uncompressed_length = 4\<rparr>"
    "FindEntry package_env_ok ''recovery.img'' = None"
    "FindEntry package_env_fsync_fails ''boot.img'' = Some \<lparr>uncompressed_length = 4\<rparr>"
    by (simp_all add: package_env_ok_def package_env_fsync_fails_def)
  have m: "ExtractToMemory package_env_ok \<lparr>uncompressed_length = 4\<rparr> 4 = (0, ''ANDR'')"
    by (simp add: package_env_ok_def)
  have o: "ota_open package_env_ok ''/tmp/boot.img''"
    "ExtractEntryToFile package_env_ok \<lparr>uncompressed_length = 4\<rparr> ''/tmp/boot.img'' = 0"
    "ota_fsync package_env_ok ''/tmp/boot.img'' = 0"
    "ota_close package_env_ok ''/tmp/boot.img'' = 0"
    "ota_fsync package_env_fsync_fails ''/tmp/boot.img'' = - 1"
    by (simp_all add: package_env_ok_def package_env_fsync_fails_def)
  from package_extract_file_results
         [of package_env_ok "''boot.img''" "''package_extract_file''" "''/tmp/boot.img''"]
       package_extract_file_results
         [of package_env_ok "''recovery.img''" "''package_extract_file''"
             "''/tmp/recovery.img''"]
       package_extract_file_results
         [of package_env_fsync_fails "''boot.img''" "''package_extract_file''"
             "''/tmp/boot.img''"]
       c f m o
  show ?thesis by auto
qed




end

